theory Spec2Isabelle
  imports Complex_Main
begin

section \<open>Numbers, errors and parameters\<close>

text \<open>
  The C++ computes with \<^verbatim>\<open>double\<close> and \<^verbatim>\<open>int\<close>. A \<^verbatim>\<open>double\<close> is idealised as a
  \<^typ>\<open>real\<close>: sums, products and quotients are exact, and \<^verbatim>\<open>std::pow(x, y)\<close> for a
  positive base is \<^term>\<open>x powr y\<close>. An \<^verbatim>\<open>int\<close> photon count is an \<^typ>\<open>int\<close>: the
  counts handled here stay between 0 and the requested number of photons.
  \<^verbatim>\<open>M_PI\<close> is \<^term>\<open>pi\<close>.
\<close>

datatype error =
    SBError string
  | SolveError
  | UndefinedFront

text \<open>
  The fields of \<^verbatim>\<open>GSParams\<close> that the two source files read
  (\<^verbatim>\<open>GSParams.h\<close> is not among the sources).
\<close>

record GSParams =
  folding_threshold :: real
  stepk_minimum_hlr :: real
  maxk_threshold :: real
  shoot_accuracy :: real

type_synonym Position = "real \<times> real"

section \<open>Profiles\<close>

text \<open>
  A profile that is not a composite is represented by what its virtual accessors
  return (\<^verbatim>\<open>getFlux()\<close>, \<^verbatim>\<open>centroid()\<close>, \<^verbatim>\<open>maxK()\<close>, \<^verbatim>\<open>stepK()\<close>, the four flags,
  \<^verbatim>\<open>getPositiveFlux()\<close>, \<^verbatim>\<open>getNegativeFlux()\<close>) and by its parameter set.
\<close>

record SBLeaf =
  leaf_gsparams :: GSParams
  leaf_getFlux :: real
  leaf_centroid :: Position
  leaf_maxK :: real
  leaf_stepK :: real
  leaf_isAxisymmetric :: bool
  leaf_hasHardEdges :: bool
  leaf_isAnalyticX :: bool
  leaf_isAnalyticK :: bool
  leaf_getPositiveFlux :: real
  leaf_getNegativeFlux :: real

text \<open>
  The reduced members of \<^verbatim>\<open>SBAddImpl\<close> that \<^verbatim>\<open>initialize()\<close> assigns:
  \<^verbatim>\<open>_sumflux\<close>, \<^verbatim>\<open>_sumfx\<close>, \<^verbatim>\<open>_sumfy\<close>, \<^verbatim>\<open>_maxMaxK\<close>, \<^verbatim>\<open>_minStepK\<close>,
  \<^verbatim>\<open>_allAxisymmetric\<close>, \<^verbatim>\<open>_allAnalyticX\<close>, \<^verbatim>\<open>_allAnalyticK\<close>, \<^verbatim>\<open>_anyHardEdges\<close>.
\<close>

record SBAddSums =
  sumflux :: real
  sumfx :: real
  sumfy :: real
  maxMaxK :: real
  minStepK :: real
  allAxisymmetric :: bool
  allAnalyticX :: bool
  allAnalyticK :: bool
  anyHardEdges :: bool

text \<open>
  An \<^verbatim>\<open>SBProfile\<close> is a handle on an implementation object. The test
  \<^verbatim>\<open>dynamic_cast<const SBAddImpl*>\<close> of \<^verbatim>\<open>add\<close> is the case distinction on the
  constructor. A composite holds its parameter set, its member list \<^verbatim>\<open>_plist\<close> and
  the reduced members.
\<close>

datatype SBProfile =
    Leaf SBLeaf
  | SBAdd GSParams "SBProfile list" SBAddSums

fun is_SBAdd :: "SBProfile \<Rightarrow> bool" where
  "is_SBAdd (Leaf l) = False"
| "is_SBAdd (SBAdd g ps r) = True"

fun getObjs :: "SBProfile \<Rightarrow> SBProfile list" where
  "getObjs (Leaf l) = []"
| "getObjs (SBAdd g ps r) = ps"

fun profile_gsparams :: "SBProfile \<Rightarrow> GSParams" where
  "profile_gsparams (Leaf l) = leaf_gsparams l"
| "profile_gsparams (SBAdd g ps r) = g"

text \<open>
  Modelled from the spec: the accessors of \<^verbatim>\<open>SBAddImpl\<close> are declared in
  \<^verbatim>\<open>SBAddImpl.h\<close>, which is not among the sources. A composite answers with its
  reduced members: the total flux, the flux-weighted centroid sums divided by the total
  flux, the largest upper band-limit, the smallest lower band-limit, the conjunctions
  and the disjunction of the flags.
\<close>

fun getFlux :: "SBProfile \<Rightarrow> real" where
  "getFlux (Leaf l) = leaf_getFlux l"
| "getFlux (SBAdd g ps r) = sumflux r"

fun centroid :: "SBProfile \<Rightarrow> Position" where
  "centroid (Leaf l) = leaf_centroid l"
| "centroid (SBAdd g ps r) = (sumfx r / sumflux r, sumfy r / sumflux r)"

fun maxK :: "SBProfile \<Rightarrow> real" where
  "maxK (Leaf l) = leaf_maxK l"
| "maxK (SBAdd g ps r) = maxMaxK r"

fun stepK :: "SBProfile \<Rightarrow> real" where
  "stepK (Leaf l) = leaf_stepK l"
| "stepK (SBAdd g ps r) = minStepK r"

fun isAxisymmetric :: "SBProfile \<Rightarrow> bool" where
  "isAxisymmetric (Leaf l) = leaf_isAxisymmetric l"
| "isAxisymmetric (SBAdd g ps r) = allAxisymmetric r"

fun hasHardEdges :: "SBProfile \<Rightarrow> bool" where
  "hasHardEdges (Leaf l) = leaf_hasHardEdges l"
| "hasHardEdges (SBAdd g ps r) = anyHardEdges r"

fun isAnalyticX :: "SBProfile \<Rightarrow> bool" where
  "isAnalyticX (Leaf l) = leaf_isAnalyticX l"
| "isAnalyticX (SBAdd g ps r) = allAnalyticX r"

fun isAnalyticK :: "SBProfile \<Rightarrow> bool" where
  "isAnalyticK (Leaf l) = leaf_isAnalyticK l"
| "isAnalyticK (SBAdd g ps r) = allAnalyticK r"

text \<open>
  \<^verbatim>\<open>SBAddImpl::getPositiveFlux\<close> and \<^verbatim>\<open>SBAddImpl::getNegativeFlux\<close>: a running sum
  over \<^verbatim>\<open>_plist\<close>, starting from 0.
\<close>

fun getPositiveFlux :: "SBProfile \<Rightarrow> real" where
  "getPositiveFlux (Leaf l) = leaf_getPositiveFlux l"
| "getPositiveFlux (SBAdd g ps r) = foldl (\<lambda>result p. result + getPositiveFlux p) 0 ps"

fun getNegativeFlux :: "SBProfile \<Rightarrow> real" where
  "getNegativeFlux (Leaf l) = leaf_getNegativeFlux l"
| "getNegativeFlux (SBAdd g ps r) = foldl (\<lambda>result p. result + getNegativeFlux p) 0 ps"

subsection \<open>Construction of a composite\<close>

text \<open>
  \<^verbatim>\<open>SBAddImpl::add\<close>: a composite argument contributes its whole member list at the
  end of \<^verbatim>\<open>_plist\<close>, any other profile is pushed back itself.
\<close>

fun add :: "SBProfile list \<Rightarrow> SBProfile \<Rightarrow> SBProfile list" where
  "add plist (SBAdd g ps r) = plist @ ps"
| "add plist (Leaf l) = plist @ [Leaf l]"

text \<open>
  \<^verbatim>\<open>SBAddImpl::initialize\<close>: the assignments before the loop, the loop body for one
  member \<open>it\<close>, and the loop over \<^verbatim>\<open>_plist\<close>.
\<close>

definition initialize_start :: SBAddSums where
  "initialize_start =
     \<lparr> sumflux = 0, sumfx = 0, sumfy = 0, maxMaxK = 0, minStepK = 0,
       allAxisymmetric = True, allAnalyticX = True, allAnalyticK = True,
       anyHardEdges = False \<rparr>"

definition initialize_body :: "SBAddSums \<Rightarrow> SBProfile \<Rightarrow> SBAddSums" where
  "initialize_body r it =
     \<lparr> sumflux = sumflux r + getFlux it,
       sumfx = sumfx r + getFlux it * fst (centroid it),
       sumfy = sumfy r + getFlux it * snd (centroid it),
       maxMaxK = (if maxK it > maxMaxK r then maxK it else maxMaxK r),
       minStepK = (if minStepK r \<le> 0 \<or> stepK it < minStepK r then stepK it else minStepK r),
       allAxisymmetric = (allAxisymmetric r \<and> isAxisymmetric it),
       allAnalyticX = (allAnalyticX r \<and> isAnalyticX it),
       allAnalyticK = (allAnalyticK r \<and> isAnalyticK it),
       anyHardEdges = (anyHardEdges r \<or> hasHardEdges it) \<rparr>"

definition initialize :: "SBProfile list \<Rightarrow> SBAddSums" where
  "initialize plist = foldl initialize_body initialize_start plist"

text \<open>
  The constructor \<^verbatim>\<open>SBAddImpl(slist, gsparams)\<close>. The parameter set is a pointer that
  may be null: then the base class is initialised from \<^verbatim>\<open>slist.front()\<close>, which is
  undefined on an empty list (\<^term>\<open>UndefinedFront\<close>). The body adds each element of
  \<open>slist\<close> in order and calls \<^verbatim>\<open>initialize()\<close>; it contains no other check.
\<close>

definition SBAddImpl_ctor :: "SBProfile list \<Rightarrow> GSParams option \<Rightarrow> error + SBProfile" where
  "SBAddImpl_ctor slist gsparams =
     (let plist = foldl add [] slist in
      case gsparams of
        Some g \<Rightarrow> Inr (SBAdd g plist (initialize plist))
      | None \<Rightarrow>
          (case slist of
             [] \<Rightarrow> Inl UndefinedFront
           | s # rest \<Rightarrow> Inr (SBAdd (profile_gsparams s) plist (initialize plist))))"

text \<open>
  The profiles that the constructors can produce: any non-composite profile, and the
  result of the composite constructor on a list of profiles that were constructed.
\<close>

inductive constructed :: "SBProfile \<Rightarrow> bool" where
  constructed_Leaf: "constructed (Leaf l)"
| constructed_SBAdd:
    "\<lbrakk> \<forall>s \<in> set slist. constructed s; SBAddImpl_ctor slist gsparams = Inr c \<rbrakk>
     \<Longrightarrow> constructed c"

section \<open>Photon shooting from a composite\<close>

text \<open>
  Modelled from the spec: \<^verbatim>\<open>PhotonArray\<close> is declared in a header that is not among the
  sources. A photon sample set is an ordered sequence of (x, y, flux-weight) triples
  with a flag telling whether the weights are correlated; the total flux is the sum of
  the weights. \<^verbatim>\<open>PhotonArray(0)\<close> is the empty, uncorrelated set; \<^verbatim>\<open>scaleFlux\<close>
  multiplies every weight; \<^verbatim>\<open>append\<close> adds the triples of another set at the end;
  \<^verbatim>\<open>setCorrelated\<close> raises the flag.
\<close>

record PhotonArray =
  photons :: "(real \<times> real \<times> real) list"
  is_correlated :: bool

definition PhotonArray_new :: PhotonArray where
  "PhotonArray_new = \<lparr> photons = [], is_correlated = False \<rparr>"

definition scaleFlux :: "real \<Rightarrow> PhotonArray \<Rightarrow> PhotonArray" where
  "scaleFlux scale pa = pa\<lparr> photons := map (\<lambda>(x, y, f). (x, y, f * scale)) (photons pa) \<rparr>"

definition PhotonArray_append :: "PhotonArray \<Rightarrow> PhotonArray \<Rightarrow> PhotonArray" where
  "PhotonArray_append pa rhs = pa\<lparr> photons := photons pa @ photons rhs \<rparr>"

definition setCorrelated :: "PhotonArray \<Rightarrow> PhotonArray" where
  "setCorrelated pa = pa\<lparr> is_correlated := True \<rparr>"

definition getTotalFlux :: "PhotonArray \<Rightarrow> real" where
  "getTotalFlux pa = sum_list (map (\<lambda>(x, y, f). f) (photons pa))"

text \<open>
  \<^verbatim>\<open>SBProfile::shoot(N, u)\<close> dispatches on the implementation. The shoot routine of a
  profile class other than \<^verbatim>\<open>SBAdd\<close> is not among the sources: it is the parameter
  \<open>leaf_shoot\<close>. The uniform deviate \<open>u\<close> is a handle on a shared generator, whose state
  is threaded through every call; \<^verbatim>\<open>BinomialDeviate bd(u, n, p); bd()\<close> is the parameter
  \<open>BinomialDeviate\<close>, which returns the draw and the new state.

  \<^verbatim>\<open>SBAddImpl::shoot\<close> is the second equation, and its \<^verbatim>\<open>for\<close> loop over \<^verbatim>\<open>_plist\<close>
  is \<open>shoot_loop\<close>: the member list still to visit, \<^verbatim>\<open>remainingN\<close>,
  \<^verbatim>\<open>remainingAbsoluteFlux\<close>, the generator and \<^verbatim>\<open>result\<close> are the loop state. The
  test \<^verbatim>\<open>nextPtr != _plist.end()\<close> is \<open>rest \<noteq> []\<close>, and each \<^verbatim>\<open>break\<close> returns
  the state reached.
\<close>

function (sequential)
  shoot :: "(SBLeaf \<Rightarrow> int \<Rightarrow> 'u \<Rightarrow> PhotonArray \<times> 'u) \<Rightarrow> ('u \<Rightarrow> int \<Rightarrow> real \<Rightarrow> int \<times> 'u)
              \<Rightarrow> SBProfile \<Rightarrow> int \<Rightarrow> 'u \<Rightarrow> PhotonArray \<times> 'u"
  and shoot_loop :: "(SBLeaf \<Rightarrow> int \<Rightarrow> 'u \<Rightarrow> PhotonArray \<times> 'u) \<Rightarrow> ('u \<Rightarrow> int \<Rightarrow> real \<Rightarrow> int \<times> 'u)
              \<Rightarrow> real \<Rightarrow> SBProfile list \<Rightarrow> int \<Rightarrow> real \<Rightarrow> 'u \<Rightarrow> PhotonArray
              \<Rightarrow> PhotonArray \<times> 'u"
where
  "shoot leaf_shoot BinomialDeviate (Leaf l) N u = leaf_shoot l N u"
| "shoot leaf_shoot BinomialDeviate (SBAdd g plist r) N u =
     (let totalAbsoluteFlux = getPositiveFlux (SBAdd g plist r) + getNegativeFlux (SBAdd g plist r);
          fluxPerPhoton = totalAbsoluteFlux / real_of_int N;
          (result, u') = shoot_loop leaf_shoot BinomialDeviate fluxPerPhoton plist
                           N totalAbsoluteFlux u PhotonArray_new
      in (if length plist > 1 then setCorrelated result else result, u'))"
| "shoot_loop leaf_shoot BinomialDeviate fluxPerPhoton [] remainingN remainingAbsoluteFlux u result
     = (result, u)"
| "shoot_loop leaf_shoot BinomialDeviate fluxPerPhoton (p # rest) remainingN remainingAbsoluteFlux
       u result =
     (let thisAbsoluteFlux = getPositiveFlux p + getNegativeFlux p;
          (thisN, u1) =
            (if rest \<noteq> []
             then BinomialDeviate u remainingN (thisAbsoluteFlux / remainingAbsoluteFlux)
             else (remainingN, u));
          (result1, u2) =
            (if thisN > 0
             then (let (thisPA, u') = shoot leaf_shoot BinomialDeviate p thisN u1
                   in (PhotonArray_append result
                         (scaleFlux (fluxPerPhoton * real_of_int thisN / thisAbsoluteFlux) thisPA),
                       u'))
             else (result, u1));
          remainingN1 = remainingN - thisN;
          remainingAbsoluteFlux1 = remainingAbsoluteFlux - thisAbsoluteFlux
      in if remainingN1 \<le> 0 then (result1, u2)
         else if remainingAbsoluteFlux1 \<le> 0 then (result1, u2)
         else shoot_loop leaf_shoot BinomialDeviate fluxPerPhoton rest
                remainingN1 remainingAbsoluteFlux1 u2 result1)"
  by pat_completeness auto
termination
  by (relation "measure (\<lambda>a. case a of
                   Inl (ls, bd, p, N, u) \<Rightarrow> size p
                 | Inr (ls, bd, fpp, ps, n, f, u, res) \<Rightarrow> size_list size ps)")
     auto

text \<open>
  The values that \<^verbatim>\<open>thisN\<close> takes in the successive iterations of the loop of
  \<^verbatim>\<open>SBAddImpl::shoot\<close>: the same control flow as \<open>shoot_loop\<close>, keeping the counts
  instead of the photons. A member has contributed photons when its \<^verbatim>\<open>thisN\<close> is
  positive.
\<close>

fun shoot_thisN :: "(SBLeaf \<Rightarrow> int \<Rightarrow> 'u \<Rightarrow> PhotonArray \<times> 'u) \<Rightarrow> ('u \<Rightarrow> int \<Rightarrow> real \<Rightarrow> int \<times> 'u)
              \<Rightarrow> SBProfile list \<Rightarrow> int \<Rightarrow> real \<Rightarrow> 'u \<Rightarrow> int list" where
  "shoot_thisN leaf_shoot BinomialDeviate [] remainingN remainingAbsoluteFlux u = []"
| "shoot_thisN leaf_shoot BinomialDeviate (p # rest) remainingN remainingAbsoluteFlux u =
     (let thisAbsoluteFlux = getPositiveFlux p + getNegativeFlux p;
          (thisN, u1) =
            (if rest \<noteq> []
             then BinomialDeviate u remainingN (thisAbsoluteFlux / remainingAbsoluteFlux)
             else (remainingN, u));
          u2 = (if thisN > 0 then snd (shoot leaf_shoot BinomialDeviate p thisN u1) else u1);
          remainingN1 = remainingN - thisN;
          remainingAbsoluteFlux1 = remainingAbsoluteFlux - thisAbsoluteFlux
      in thisN #
         (if remainingN1 \<le> 0 then []
          else if remainingAbsoluteFlux1 \<le> 0 then []
          else shoot_thisN leaf_shoot BinomialDeviate rest remainingN1 remainingAbsoluteFlux1 u2))"

definition contributing_members ::
  "(SBLeaf \<Rightarrow> int \<Rightarrow> 'u \<Rightarrow> PhotonArray \<times> 'u) \<Rightarrow> ('u \<Rightarrow> int \<Rightarrow> real \<Rightarrow> int \<times> 'u)
     \<Rightarrow> SBProfile \<Rightarrow> int \<Rightarrow> 'u \<Rightarrow> nat" where
  "contributing_members leaf_shoot BinomialDeviate c N u =
     length (filter (\<lambda>thisN. 0 < thisN)
       (shoot_thisN leaf_shoot BinomialDeviate (getObjs c) N
          (getPositiveFlux c + getNegativeFlux c) u))"

subsection \<open>The allocation rule in the words of the specification\<close>

text \<open>
  A second description of composite shooting, written from the specification and not
  from the code, to be compared with \<open>shoot_loop\<close>. The absolute flux of a member is
  its positive flux plus its negative flux. Members are visited in list order. Every
  member but the last draws its count from a binomial distribution with trials the
  photons remaining and success probability its absolute flux over the absolute flux of
  the members not yet processed (the sum over the rest of the list, this member
  included); the last member receives all remaining photons. A member that is given
  \<open>k > 0\<close> photons shoots them, and the weights of its sub-sample are rescaled by the
  nominal weight times \<open>k\<close> over its absolute flux. The iteration stops as soon as no
  photon or no absolute flux remains.
\<close>

definition spec_absoluteFlux :: "SBProfile \<Rightarrow> real" where
  "spec_absoluteFlux m = getPositiveFlux m + getNegativeFlux m"

definition spec_draw ::
  "(SBProfile \<Rightarrow> int \<Rightarrow> 'u \<Rightarrow> PhotonArray \<times> 'u) \<Rightarrow> real \<Rightarrow> SBProfile \<Rightarrow> int \<Rightarrow> 'u \<Rightarrow> PhotonArray
     \<Rightarrow> PhotonArray \<times> 'u" where
  "spec_draw member_shoot weight m k u merged =
     (if 0 < k
      then (let (sub, u') = member_shoot m k u
            in (PhotonArray_append merged
                  (scaleFlux (weight * real_of_int k / spec_absoluteFlux m) sub), u'))
      else (merged, u))"

fun spec_allocate ::
  "(SBProfile \<Rightarrow> int \<Rightarrow> 'u \<Rightarrow> PhotonArray \<times> 'u) \<Rightarrow> ('u \<Rightarrow> int \<Rightarrow> real \<Rightarrow> int \<times> 'u) \<Rightarrow> real
     \<Rightarrow> SBProfile list \<Rightarrow> int \<Rightarrow> 'u \<Rightarrow> PhotonArray \<Rightarrow> PhotonArray \<times> 'u" where
  "spec_allocate member_shoot binomial_draw weight [] n u merged = (merged, u)"
| "spec_allocate member_shoot binomial_draw weight [m] n u merged =
     spec_draw member_shoot weight m n u merged"
| "spec_allocate member_shoot binomial_draw weight (m # ms) n u merged =
     (let (k, u1) = binomial_draw u n
                      (spec_absoluteFlux m / (\<Sum>q\<leftarrow>m # ms. spec_absoluteFlux q));
          (merged1, u2) = spec_draw member_shoot weight m k u1 merged
      in if n - k \<le> 0 \<or> (\<Sum>q\<leftarrow>ms. spec_absoluteFlux q) \<le> 0 then (merged1, u2)
         else spec_allocate member_shoot binomial_draw weight ms (n - k) u2 merged1)"

section \<open>The Spergel profile\<close>

text \<open>
  \<^verbatim>\<open>_xnorm0\<close> and the values of \<^verbatim>\<open>xValue\<close> are either a finite number or the
  constant \<^verbatim>\<open>INFINITY\<close>.
\<close>

datatype dbl = Finite real | INFINITY

text \<open>
  What the Spergel code takes from outside the sources, as parameters:
  \<^verbatim>\<open>std::tgamma\<close>; \<^verbatim>\<open>math::cyl_bessel_k(nu, x)\<close> of \<^verbatim>\<open>math/Bessel.h\<close>; the bounds
  \<^verbatim>\<open>sbp::minimum_spergel_nu\<close> and \<^verbatim>\<open>sbp::maximum_spergel_nu\<close>; and the root solver of
  \<^verbatim>\<open>Solve.h\<close>. The solver is given a scalar function, a bracket \<open>[z1, z2]\<close>, a tolerance
  on the root, a method and the direction in which to extend the bracket; it returns a
  root or fails (\<^term>\<open>SolveError\<close>). The calls \<^verbatim>\<open>setXTolerance\<close>, \<^verbatim>\<open>setMethod\<close>,
  \<^verbatim>\<open>bracketLowerWithLimit\<close> or \<^verbatim>\<open>bracketUpper\<close>, and \<^verbatim>\<open>root\<close> are one application
  of \<open>Solve_root\<close>.
\<close>

datatype bracketing = bracketLowerWithLimit real | bracketUpper

datatype Method = Brent

record extern =
  tgamma :: "real \<Rightarrow> real"
  cyl_bessel_k :: "real \<Rightarrow> real \<Rightarrow> real"
  Solve_root :: "(real \<Rightarrow> real) \<Rightarrow> real \<Rightarrow> real \<Rightarrow> real \<Rightarrow> Method \<Rightarrow> bracketing \<Rightarrow> error + real"
  minimum_spergel_nu :: real
  maximum_spergel_nu :: real

text \<open>
  The members of \<^verbatim>\<open>SpergelInfo\<close>: \<^verbatim>\<open>_nu\<close>, \<^verbatim>\<open>_gsparams\<close>, \<^verbatim>\<open>_gamma_nup1\<close>,
  \<^verbatim>\<open>_gamma_nup2\<close>, \<^verbatim>\<open>_xnorm0\<close>, and the memoised \<^verbatim>\<open>_maxk\<close>, \<^verbatim>\<open>_stepk\<close>,
  \<^verbatim>\<open>_re\<close>, where 0 means not yet computed.
\<close>

record SpergelInfo =
  info_nu :: real
  info_gsparams :: GSParams
  info_gamma_nup1 :: real
  info_gamma_nup2 :: real
  info_xnorm0 :: dbl
  info_maxk :: real
  info_stepk :: real
  info_re :: real

text \<open>
  The constructor \<^verbatim>\<open>SpergelInfo(nu, gsparams)\<close>: the member initialisers, then the
  range check that throws \<^verbatim>\<open>SBError\<close>.
\<close>

definition SpergelInfo_ctor :: "extern \<Rightarrow> real \<Rightarrow> GSParams \<Rightarrow> error + SpergelInfo" where
  "SpergelInfo_ctor E nu gsparams =
     (let gamma_nup1 = tgamma E (nu + 1);
          gamma_nup2 = gamma_nup1 * (nu + 1);
          xnorm0 = (if nu > 0 then Finite (gamma_nup1 / (2 * nu) * 2 powr nu) else INFINITY)
      in if nu < minimum_spergel_nu E \<or> nu > maximum_spergel_nu E
         then Inl (SBError ''Requested Spergel index out of range'')
         else Inr \<lparr> info_nu = nu, info_gsparams = gsparams, info_gamma_nup1 = gamma_nup1,
                    info_gamma_nup2 = gamma_nup2, info_xnorm0 = xnorm0,
                    info_maxk = 0, info_stepk = 0, info_re = 0 \<rparr>)"

text \<open>
  The functor \<^verbatim>\<open>SpergelIntegratedFlux\<close> (the enclosed flux minus the target), and
  the two functions that use it.
\<close>

definition SpergelIntegratedFlux :: "extern \<Rightarrow> real \<Rightarrow> real \<Rightarrow> real \<Rightarrow> real \<Rightarrow> real" where
  "SpergelIntegratedFlux E nu gamma_nup2 target u =
     (let fnup1 = (u / 2) powr (nu + 1) * cyl_bessel_k E (nu + 1) u / gamma_nup2;
          f = 1 - 2 * (1 + nu) * fnup1
      in f - target)"

definition calculateFluxRadius :: "extern \<Rightarrow> SpergelInfo \<Rightarrow> real \<Rightarrow> error + real" where
  "calculateFluxRadius E info flux_frac =
     (let z1 = 1 / 10;
          z2 = 35 / 10;
          func = SpergelIntegratedFlux E (info_nu info) (info_gamma_nup2 info) flux_frac
      in Solve_root E func z1 z2 (1 / 10 ^ 25) Brent
           (if flux_frac < 5 / 10 then bracketLowerWithLimit 0 else bracketUpper))"

definition calculateIntegratedFlux :: "extern \<Rightarrow> SpergelInfo \<Rightarrow> real \<Rightarrow> real" where
  "calculateIntegratedFlux E info r =
     SpergelIntegratedFlux E (info_nu info) (info_gamma_nup2 info) 0 r"

text \<open>
  \<^verbatim>\<open>SpergelInfo::stepK\<close>, \<^verbatim>\<open>SpergelInfo::maxK\<close> and \<^verbatim>\<open>SpergelInfo::getHLR\<close>
  compute on first use and store the value in the record: they return the value and the
  updated record.
\<close>

definition SpergelInfo_stepK :: "extern \<Rightarrow> SpergelInfo \<Rightarrow> error + (real \<times> SpergelInfo)" where
  "SpergelInfo_stepK E info =
     (if info_stepk info = 0
      then (case calculateFluxRadius E info (1 - folding_threshold (info_gsparams info)) of
              Inl e \<Rightarrow> Inl e
            | Inr R0 \<Rightarrow>
                (let R = max R0 (stepk_minimum_hlr (info_gsparams info));
                     stepk = pi / R
                 in Inr (stepk, info\<lparr> info_stepk := stepk \<rparr>)))
      else Inr (info_stepk info, info))"

definition SpergelInfo_maxK :: "extern \<Rightarrow> SpergelInfo \<Rightarrow> real \<times> SpergelInfo" where
  "SpergelInfo_maxK E info =
     (if info_maxk info = 0
      then (let maxk = maxk_threshold (info_gsparams info) powr (- 1 / (2 * (1 + info_nu info)))
            in (maxk, info\<lparr> info_maxk := maxk \<rparr>))
      else (info_maxk info, info))"

definition getHLR :: "extern \<Rightarrow> SpergelInfo \<Rightarrow> error + (real \<times> SpergelInfo)" where
  "getHLR E info =
     (if info_re info = 0
      then (case calculateFluxRadius E info (5 / 10) of
              Inl e \<Rightarrow> Inl e
            | Inr re \<Rightarrow> Inr (re, info\<lparr> info_re := re \<rparr>))
      else Inr (info_re info, info))"

definition getXNorm :: "SpergelInfo \<Rightarrow> real" where
  "getXNorm info = 2 powr (- info_nu info) / info_gamma_nup1 info / (2 * pi)"

definition SpergelInfo_xValue :: "extern \<Rightarrow> SpergelInfo \<Rightarrow> real \<Rightarrow> dbl" where
  "SpergelInfo_xValue E info r =
     (if r = 0 then info_xnorm0 info
      else Finite (cyl_bessel_k E (info_nu info) r * r powr info_nu info))"

definition SpergelInfo_kValue :: "SpergelInfo \<Rightarrow> real \<Rightarrow> real" where
  "SpergelInfo_kValue info ksq = (1 + ksq) powr (- 1 - info_nu info)"

text \<open>
  The two radial functions of photon shooting, and the block of
  \<^verbatim>\<open>SpergelInfo::shoot\<close> that builds \<^verbatim>\<open>_radial\<close> and the range handed to the
  one-dimensional sampler (the sampler itself, \<^verbatim>\<open>OneDimensionalDeviate\<close>, is not among
  the sources).
\<close>

datatype FluxDensity =
    SpergelNuPositiveRadialFunction real dbl
  | SpergelNuNegativeRadialFunction real real real real

fun FluxDensity_call :: "extern \<Rightarrow> FluxDensity \<Rightarrow> real \<Rightarrow> dbl" where
  "FluxDensity_call E (SpergelNuPositiveRadialFunction nu xnorm0) r =
     (if r = 0 then xnorm0 else Finite (cyl_bessel_k E nu r * r powr nu))"
| "FluxDensity_call E (SpergelNuNegativeRadialFunction nu rmin a b) r =
     (if r \<le> rmin then Finite (a + b * r) else Finite (cyl_bessel_k E nu r * r powr nu))"

definition SpergelInfo_shoot_sampler :: "extern \<Rightarrow> SpergelInfo \<Rightarrow> error + (FluxDensity \<times> real list)" where
  "SpergelInfo_shoot_sampler E info =
     (case calculateFluxRadius E info (1 - shoot_accuracy (info_gsparams info)) of
        Inl e \<Rightarrow> Inl e
      | Inr shoot_rmax \<Rightarrow>
          if info_nu info > 0
          then Inr (SpergelNuPositiveRadialFunction (info_nu info) (info_xnorm0 info),
                    [0, shoot_rmax])
          else (let flux_target = shoot_accuracy (info_gsparams info)
                in case calculateFluxRadius E info flux_target of
                     Inl e \<Rightarrow> Inl e
                   | Inr shoot_rmin \<Rightarrow>
                       (let knur = cyl_bessel_k E (info_nu info) shoot_rmin
                                     * shoot_rmin powr info_nu info;
                            b = 3 / shoot_rmin
                                  * (knur - flux_target / (pi * shoot_rmin * shoot_rmin));
                            a = knur - shoot_rmin * b
                        in Inr (SpergelNuNegativeRadialFunction (info_nu info) shoot_rmin a b,
                                [0, shoot_rmin, shoot_rmax]))))"

text \<open>
  A profile instance. The constructor \<^verbatim>\<open>SBSpergelImpl(nu, size, rType, flux, gsparams)\<close>
  obtains the shared record from the cache (\<^verbatim>\<open>LRUCache.h\<close> is not among the sources; a
  lookup returns the record that the \<^verbatim>\<open>SpergelInfo\<close> constructor builds for the key),
  then sets the two radii according to \<^verbatim>\<open>rType\<close>.
\<close>

datatype RadiusType = HALF_LIGHT_RADIUS | SCALE_RADIUS

record SBSpergelImpl =
  impl_gsparams :: GSParams
  impl_nu :: real
  impl_flux :: real
  impl_r0 :: real
  impl_re :: real
  impl_xnorm :: real
  impl_shootnorm :: real
  impl_r0_sq :: real
  impl_inv_r0 :: real
  impl_info :: SpergelInfo

definition SBSpergelImpl_ctor ::
  "extern \<Rightarrow> real \<Rightarrow> real \<Rightarrow> RadiusType \<Rightarrow> real \<Rightarrow> GSParams \<Rightarrow> error + SBSpergelImpl" where
  "SBSpergelImpl_ctor E nu size0 rType flux gsparams =
     (case SpergelInfo_ctor E nu gsparams of
        Inl e \<Rightarrow> Inl e
      | Inr info0 \<Rightarrow>
          (case getHLR E info0 of
             Inl e \<Rightarrow> Inl e
           | Inr (hlr, info) \<Rightarrow>
               (let (re, r0) = (case rType of
                                  HALF_LIGHT_RADIUS \<Rightarrow> (size0, size0 / hlr)
                                | SCALE_RADIUS \<Rightarrow> (size0 * hlr, size0));
                    r0_sq = r0 * r0;
                    inv_r0 = 1 / r0;
                    shootnorm = flux * getXNorm info;
                    xnorm = shootnorm / r0_sq
                in Inr \<lparr> impl_gsparams = gsparams, impl_nu = nu, impl_flux = flux,
                          impl_r0 = r0, impl_re = re, impl_xnorm = xnorm,
                          impl_shootnorm = shootnorm, impl_r0_sq = r0_sq,
                          impl_inv_r0 = inv_r0, impl_info = info \<rparr>)))"

definition getHalfLightRadius :: "SBSpergelImpl \<Rightarrow> real" where
  "getHalfLightRadius impl = impl_re impl"

definition getScaleRadius :: "SBSpergelImpl \<Rightarrow> real" where
  "getScaleRadius impl = impl_r0 impl"

definition SBSpergelImpl_stepK :: "extern \<Rightarrow> SBSpergelImpl \<Rightarrow> error + real" where
  "SBSpergelImpl_stepK E impl =
     (case SpergelInfo_stepK E (impl_info impl) of
        Inl e \<Rightarrow> Inl e
      | Inr (stepk, info) \<Rightarrow> Inr (stepk * impl_inv_r0 impl))"



subsection \<open>The contract of the root solver, and radial flux\<close>


text \<open>
  The flux of a radial density \<open>f\<close> inside the radius \<open>R\<close> is the integral of
  \<open>2 \<pi> r f(r)\<close> from 0 to \<open>R\<close>. It is stated through an antiderivative: \<open>v\<close> is the flux
  when some function that is continuous on \<open>[0, R]\<close> and has the derivative
  \<open>2 \<pi> r f(r)\<close> at every \<open>r\<close> strictly between 0 and \<open>R\<close> increases by \<open>v\<close> from 0 to \<open>R\<close>.
\<close>

definition radial_flux :: "(real \<Rightarrow> real) \<Rightarrow> real \<Rightarrow> real \<Rightarrow> bool" where
  "radial_flux f R v \<longleftrightarrow>
     (\<exists>G. continuous_on {0..R} G
        \<and> (\<forall>r. 0 < r \<and> r < R \<longrightarrow> (G has_real_derivative 2 * pi * r * f r) (at r))
        \<and> G R - G 0 = v)"

section \<open>Sample inputs\<close>

text \<open>
  Concrete parameters, profiles and collaborators on which the theorems below are
  instantiated. The sample generator state is a counter. One sample binomial draw makes
  every trial succeed, the other half of them. The sample environment has \<open>tgamma\<close> equal
  to 1 (the value of the Gamma function at 1 and at 2, the arguments used below), a
  simple stand-in for the Bessel function, and a solver that answers 1/100 when the
  bracket is extended downward and 2 when it is extended upward.
\<close>

definition sample_gsparams :: GSParams where
  "sample_gsparams =
     \<lparr> folding_threshold = 5 / 1000, stepk_minimum_hlr = 5,
       maxk_threshold = 1 / 1000, shoot_accuracy = 1 / 100000 \<rparr>"

definition sample_leaf :: "real \<Rightarrow> Position \<Rightarrow> real \<Rightarrow> real \<Rightarrow> bool \<Rightarrow> SBLeaf" where
  "sample_leaf f c mk sk he =
     \<lparr> leaf_gsparams = sample_gsparams, leaf_getFlux = f, leaf_centroid = c,
       leaf_maxK = mk, leaf_stepK = sk, leaf_isAxisymmetric = True,
       leaf_hasHardEdges = he, leaf_isAnalyticX = True, leaf_isAnalyticK = True,
       leaf_getPositiveFlux = f, leaf_getNegativeFlux = 0 \<rparr>"

definition sample_A :: SBProfile where
  "sample_A = Leaf (sample_leaf 1 (0, 0) 8 (1 / 2) False)"

definition sample_B :: SBProfile where
  "sample_B = Leaf (sample_leaf 3 (4, 8) 6 (1 / 4) True)"

definition sample_C :: SBProfile where
  "sample_C = Leaf (sample_leaf 2 (1, 1) 9 1 False)"

definition sample_AB :: SBProfile where
  "sample_AB = SBAdd sample_gsparams [sample_A, sample_B] (initialize [sample_A, sample_B])"

definition sample_leaf_shoot :: "SBLeaf \<Rightarrow> int \<Rightarrow> nat \<Rightarrow> PhotonArray \<times> nat" where
  "sample_leaf_shoot l N u =
     (\<lparr> photons = replicate (nat N)
           (fst (leaf_centroid l), snd (leaf_centroid l),
            (leaf_getPositiveFlux l + leaf_getNegativeFlux l) / real_of_int N),
         is_correlated = False \<rparr>,
      u + nat N)"

definition sample_binomial_all :: "nat \<Rightarrow> int \<Rightarrow> real \<Rightarrow> int \<times> nat" where
  "sample_binomial_all u n p = (n, Suc u)"

definition sample_binomial_half :: "nat \<Rightarrow> int \<Rightarrow> real \<Rightarrow> int \<times> nat" where
  "sample_binomial_half u n p = (n div 2, Suc u)"

definition sample_extern :: extern where
  "sample_extern =
     \<lparr> tgamma = (\<lambda>x. 1),
       cyl_bessel_k = (\<lambda>nu x. 1 / x),
       Solve_root = (\<lambda>func z1 z2 xtol m b.
                       case b of bracketLowerWithLimit lower \<Rightarrow> Inr (1 / 100)
                               | bracketUpper \<Rightarrow> Inr 2),
       minimum_spergel_nu = - (85 / 100),
       maximum_spergel_nu = 4 \<rparr>"

definition sample_info1 :: SpergelInfo where
  "sample_info1 =
     \<lparr> info_nu = 1, info_gsparams = sample_gsparams, info_gamma_nup1 = 1,
       info_gamma_nup2 = 2, info_xnorm0 = Finite 1,
       info_maxk = 0, info_stepk = 0, info_re = 0 \<rparr>"

text \<open>
  A second environment, for the exponential profile (\<open>\<nu> = 1/2\<close>): the Gamma function at
  3/2, the closed form of the Bessel function of order 3/2, and a solver that answers
  with the roots of the enclosed-flux function \<open>1 - (1 + R) e\<^sup>-\<^sup>R\<close> to four decimal
  places: 1.6783 for the target 1/2 and 7.4301 for the target 0.995. The solver reads the
  target off the function it is given, whose value at 0 is one minus the target.
\<close>

definition exponential_extern :: extern where
  "exponential_extern =
     \<lparr> tgamma = (\<lambda>x. if x = 3 / 2 then sqrt pi / 2 else 1),
       cyl_bessel_k = (\<lambda>nu x. sqrt (pi / (2 * x)) * exp (- x) * (1 + 1 / x)),
       Solve_root = (\<lambda>func z1 z2 xtol m b.
                       if 1 - func 0 = 1 / 2 then Inr (16783 / 10000)
                       else if 1 - func 0 = 995 / 1000 then Inr (74301 / 10000)
                       else Inl SolveError),
       minimum_spergel_nu = - (85 / 100),
       maximum_spergel_nu = 4 \<rparr>"

definition exponential_info :: SpergelInfo where
  "exponential_info =
     \<lparr> info_nu = 1 / 2, info_gsparams = sample_gsparams,
       info_gamma_nup1 = sqrt pi / 2, info_gamma_nup2 = sqrt pi / 2 * (3 / 2),
       info_xnorm0 = Finite (sqrt pi / 2 / (2 * (1 / 2)) * 2 powr (1 / 2)),
       info_maxk = 0, info_stepk = 0, info_re = 0 \<rparr>"

text \<open>
  A third environment, for the index \<open>\<nu> = -1/2\<close>: the Gamma function at 1/2, the closed
  form \<open>\<surd>(\<pi> / (2 x)) e\<^sup>-\<^sup>x\<close> of the Bessel function of order 1/2 and -1/2, and an
  exact solver. For this index the enclosed-flux function is \<open>1 - e\<^sup>-\<^sup>R\<close>, whose root
  for the target \<open>t\<close> is \<open>- ln (1 - t)\<close>; the solver reads the target off the function it
  is given, whose value at 0 is one minus the target. The shape record and a profile
  instance of scale radius 3 in this environment follow.
\<close>

definition cusp_extern :: extern where
  "cusp_extern =
     \<lparr> tgamma = (\<lambda>x. if x = 1 / 2 then sqrt pi else 1),
       cyl_bessel_k = (\<lambda>nu x. sqrt (pi / (2 * x)) * exp (- x)),
       Solve_root = (\<lambda>func z1 z2 xtol m b. Inr (- ln (func 0))),
       minimum_spergel_nu = - (85 / 100),
       maximum_spergel_nu = 4 \<rparr>"

definition cusp_info :: "GSParams \<Rightarrow> SpergelInfo" where
  "cusp_info g =
     \<lparr> info_nu = - (1 / 2), info_gsparams = g,
       info_gamma_nup1 = sqrt pi, info_gamma_nup2 = sqrt pi * (1 / 2),
       info_xnorm0 = INFINITY, info_maxk = 0, info_stepk = 0, info_re = 0 \<rparr>"


section \<open>The reduced properties of a composite\<close>

lemmas sample_defs = sample_A_def sample_B_def sample_C_def sample_leaf_def
lemmas init_defs = initialize_def initialize_body_def initialize_start_def

lemma foldl_add_sum_list:
  "foldl (\<lambda>acc p. acc + f p) (a::real) ps = a + sum_list (map f ps)"
  by (induction ps arbitrary: a) simp_all

lemma sumflux_foldl:
  "sumflux (foldl initialize_body r ps) = sumflux r + sum_list (map getFlux ps)"
  by (induction ps arbitrary: r) (simp_all add: initialize_body_def)

lemma sumfx_foldl:
  "sumfx (foldl initialize_body r ps) =
     sumfx r + sum_list (map (\<lambda>m. getFlux m * fst (centroid m)) ps)"
  by (induction ps arbitrary: r) (simp_all add: initialize_body_def)

lemma sumfy_foldl:
  "sumfy (foldl initialize_body r ps) =
     sumfy r + sum_list (map (\<lambda>m. getFlux m * snd (centroid m)) ps)"
  by (induction ps arbitrary: r) (simp_all add: initialize_body_def)

lemma maxMaxK_foldl:
  "maxMaxK (foldl initialize_body r ps) = Max (insert (maxMaxK r) (maxK ` set ps))"
proof (induction ps arbitrary: r)
  case Nil
  show ?case by simp
next
  case (Cons p ps)
  have eq: "maxMaxK (initialize_body r p) = max (maxK p) (maxMaxK r)"
    by (simp add: initialize_body_def max_def)
  have "maxMaxK (foldl initialize_body (initialize_body r p) ps)
          = Max (insert (max (maxK p) (maxMaxK r)) (maxK ` set ps))"
    using Cons.IH [of "initialize_body r p"] eq by simp
  also have "\<dots> = Max (insert (maxMaxK r) (maxK ` set (p # ps)))"
    by (cases "ps = []") (simp_all add: max.commute max.left_commute insert_commute)
  finally show ?case by simp
qed

lemma minStepK_foldl_pos:
  assumes "\<forall>m \<in> set ps. 0 < stepK m" and "0 < minStepK r"
  shows "minStepK (foldl initialize_body r ps) = Min (insert (minStepK r) (stepK ` set ps))"
  using assms
proof (induction ps arbitrary: r)
  case Nil
  show ?case by simp
next
  case (Cons p ps)
  have eq: "minStepK (initialize_body r p) = min (stepK p) (minStepK r)"
    using Cons.prems by (simp add: initialize_body_def min_def)
  have pos: "0 < minStepK (initialize_body r p)"
    using Cons.prems eq by simp
  have "minStepK (foldl initialize_body (initialize_body r p) ps)
          = Min (insert (min (stepK p) (minStepK r)) (stepK ` set ps))"
    using Cons.IH [OF _ pos] Cons.prems eq by simp
  also have "\<dots> = Min (insert (minStepK r) (stepK ` set (p # ps)))"
    by (cases "ps = []") (simp_all add: min.commute min.left_commute insert_commute)
  finally show ?case by simp
qed

lemma minStepK_foldl_start:
  assumes "\<forall>m \<in> set ps. 0 < stepK m" and "minStepK r \<le> 0" and "ps \<noteq> []"
  shows "minStepK (foldl initialize_body r ps) = Min (stepK ` set ps)"
proof (cases ps)
  case Nil
  with assms show ?thesis by simp
next
  case (Cons p qs)
  have eq: "minStepK (initialize_body r p) = stepK p"
    using assms by (simp add: initialize_body_def)
  have "minStepK (foldl initialize_body (initialize_body r p) qs)
          = Min (insert (stepK p) (stepK ` set qs))"
    using minStepK_foldl_pos [of qs "initialize_body r p"] assms Cons eq by simp
  then show ?thesis using Cons by simp
qed

lemma flags_foldl:
  "allAxisymmetric (foldl initialize_body r ps) = (allAxisymmetric r \<and> (\<forall>m \<in> set ps. isAxisymmetric m))"
  "allAnalyticX (foldl initialize_body r ps) = (allAnalyticX r \<and> (\<forall>m \<in> set ps. isAnalyticX m))"
  "allAnalyticK (foldl initialize_body r ps) = (allAnalyticK r \<and> (\<forall>m \<in> set ps. isAnalyticK m))"
  "anyHardEdges (foldl initialize_body r ps) = (anyHardEdges r \<or> (\<exists>m \<in> set ps. hasHardEdges m))"
  by (induction ps arbitrary: r) (auto simp add: initialize_body_def)

lemma ctor_shape:
  assumes "SBAddImpl_ctor slist gsparams = Inr c"
  shows "\<exists>g. c = SBAdd g (foldl add [] slist) (initialize (foldl add [] slist))"
  using assms by (auto simp add: SBAddImpl_ctor_def Let_def split: option.splits list.splits)

text \<open>
  Claim C1. For a composite returned by the constructor, with at least one member and
  members whose band-limits are as the profile contract has them (a non-negative upper
  band-limit, a positive lower band-limit), the reduced properties are one-pass
  reductions over the member list: \<^verbatim>\<open>getFlux()\<close> is the sum of the members' fluxes; when
  the total flux is not zero, \<^verbatim>\<open>centroid()\<close> is the flux-weighted sum of the members'
  centroids divided by the total flux; \<^verbatim>\<open>maxK()\<close> is the maximum of the members'
  \<^verbatim>\<open>maxK()\<close>; \<^verbatim>\<open>stepK()\<close> is the minimum of the members' positive \<^verbatim>\<open>stepK()\<close>;
  \<^verbatim>\<open>isAxisymmetric()\<close>, \<^verbatim>\<open>isAnalyticX()\<close> and \<^verbatim>\<open>isAnalyticK()\<close> are the conjunctions
  and \<^verbatim>\<open>hasHardEdges()\<close> is the disjunction of the members' flags.
\<close>

theorem SBAdd_reduced_properties:
  assumes ctor: "SBAddImpl_ctor slist gsparams = Inr c"
    and ne: "getObjs c \<noteq> []"
    and band: "\<forall>m \<in> set (getObjs c). 0 \<le> maxK m \<and> 0 < stepK m"
  shows "getFlux c = (\<Sum>m\<leftarrow>getObjs c. getFlux m)
       \<and> (getFlux c \<noteq> 0 \<longrightarrow>
            centroid c =
              ((\<Sum>m\<leftarrow>getObjs c. getFlux m * fst (centroid m)) / (\<Sum>m\<leftarrow>getObjs c. getFlux m),
               (\<Sum>m\<leftarrow>getObjs c. getFlux m * snd (centroid m)) / (\<Sum>m\<leftarrow>getObjs c. getFlux m)))
       \<and> maxK c = Max (maxK ` set (getObjs c))
       \<and> stepK c = Min (stepK ` set (getObjs c))
       \<and> isAxisymmetric c = (\<forall>m \<in> set (getObjs c). isAxisymmetric m)
       \<and> isAnalyticX c = (\<forall>m \<in> set (getObjs c). isAnalyticX m)
       \<and> isAnalyticK c = (\<forall>m \<in> set (getObjs c). isAnalyticK m)
       \<and> hasHardEdges c = (\<exists>m \<in> set (getObjs c). hasHardEdges m)"
proof -
  obtain g ps where c: "c = SBAdd g ps (initialize ps)"
    using ctor_shape [OF ctor] by blast
  have ps: "getObjs c = ps" by (simp add: c)
  have start: "sumflux initialize_start = 0" "sumfx initialize_start = 0"
    "sumfy initialize_start = 0" "maxMaxK initialize_start = 0"
    "minStepK initialize_start = 0" "allAxisymmetric initialize_start"
    "allAnalyticX initialize_start" "allAnalyticK initialize_start"
    "\<not> anyHardEdges initialize_start"
    by (simp_all add: initialize_start_def)
  have flux: "getFlux c = (\<Sum>m\<leftarrow>ps. getFlux m)"
    by (simp add: c initialize_def sumflux_foldl start)
  have cen: "centroid c =
      ((\<Sum>m\<leftarrow>ps. getFlux m * fst (centroid m)) / (\<Sum>m\<leftarrow>ps. getFlux m),
       (\<Sum>m\<leftarrow>ps. getFlux m * snd (centroid m)) / (\<Sum>m\<leftarrow>ps. getFlux m))"
    by (simp add: c initialize_def sumflux_foldl sumfx_foldl sumfy_foldl start)
  have fin: "finite (maxK ` set ps)" "maxK ` set ps \<noteq> {}"
    using ne ps by simp_all
  have "0 \<le> Max (maxK ` set ps)"
  proof -
    obtain m where m: "m \<in> set ps" using ne ps by (cases ps) auto
    have "0 \<le> maxK m" using band ps m by simp
    also have "maxK m \<le> Max (maxK ` set ps)" using m by simp
    finally show ?thesis .
  qed
  then have mx: "maxK c = Max (maxK ` set ps)"
    using fin by (simp add: c initialize_def maxMaxK_foldl start max_def)
  have mn: "stepK c = Min (stepK ` set ps)"
    using minStepK_foldl_start [of ps initialize_start] band ne ps
    by (simp add: c initialize_def start)
  have fl: "isAxisymmetric c = (\<forall>m \<in> set ps. isAxisymmetric m)"
    "isAnalyticX c = (\<forall>m \<in> set ps. isAnalyticX m)"
    "isAnalyticK c = (\<forall>m \<in> set ps. isAnalyticK m)"
    "hasHardEdges c = (\<exists>m \<in> set ps. hasHardEdges m)"
    by (simp_all add: c initialize_def flags_foldl start)
  show ?thesis
    unfolding ps using flux cen mx mn fl by simp
qed

text \<open>
  The composite of the two sample profiles A (flux 1 at the origin) and B (flux 3 at
  (4, 8)): flux 4, centroid (3, 6), upper band-limit 8, lower band-limit 1/4.
\<close>

theorem SBAdd_reduced_properties_witness:
  "SBAddImpl_ctor [sample_A, sample_B] None
     = Inr (SBAdd sample_gsparams [sample_A, sample_B] (initialize [sample_A, sample_B]))
   \<and> getFlux (SBAdd sample_gsparams [sample_A, sample_B] (initialize [sample_A, sample_B])) = 4
   \<and> centroid (SBAdd sample_gsparams [sample_A, sample_B] (initialize [sample_A, sample_B])) = (3, 6)
   \<and> maxK (SBAdd sample_gsparams [sample_A, sample_B] (initialize [sample_A, sample_B])) = 8
   \<and> stepK (SBAdd sample_gsparams [sample_A, sample_B] (initialize [sample_A, sample_B])) = 1 / 4
   \<and> hasHardEdges (SBAdd sample_gsparams [sample_A, sample_B] (initialize [sample_A, sample_B]))"
proof -
  let ?c = "SBAdd sample_gsparams [sample_A, sample_B] (initialize [sample_A, sample_B])"
  have ctor: "SBAddImpl_ctor [sample_A, sample_B] None = Inr ?c"
    by (simp add: SBAddImpl_ctor_def Let_def sample_defs)
  have ne: "getObjs ?c \<noteq> []" by simp
  have band: "\<forall>m \<in> set (getObjs ?c). 0 \<le> maxK m \<and> 0 < stepK m"
    by (simp add: sample_defs)
  have flux: "getFlux ?c = 4" by (simp add: init_defs sample_defs)
  show ?thesis
    using SBAdd_reduced_properties [OF ctor ne band] ctor flux
    by (simp add: sample_defs init_defs)
qed

section \<open>Flattening of nested composites\<close>

lemma add_append: "add plist p = plist @ add [] p"
  by (cases p) simp_all

lemma foldl_add_append: "foldl add plist slist = plist @ foldl add [] slist"
proof (induction slist arbitrary: plist)
  case Nil
  show ?case by simp
next
  case (Cons s slist)
  have "foldl add (add plist s) slist = add plist s @ foldl add [] slist"
    using Cons.IH [of "add plist s"] .
  moreover have "foldl add (add [] s) slist = add [] s @ foldl add [] slist"
    using Cons.IH [of "add [] s"] .
  ultimately show ?case
    using add_append [of plist s] by simp
qed

lemma foldl_add_concat: "foldl add [] slist = concat (map (add []) slist)"
proof (induction slist)
  case Nil
  show ?case by simp
next
  case (Cons s slist)
  then show ?case using foldl_add_append [of "add [] s" slist] by simp
qed

lemma getObjs_ctor:
  assumes "SBAddImpl_ctor slist gsparams = Inr c"
  shows "getObjs c = foldl add [] slist"
  using ctor_shape [OF assms] by auto

lemma is_SBAdd_ctor:
  assumes "SBAddImpl_ctor slist gsparams = Inr c"
  shows "is_SBAdd c"
  using ctor_shape [OF assms] by auto

lemma add_Nil_cases: "add [] p = (if is_SBAdd p then getObjs p else [p])"
  by (cases p) simp_all

lemma constructed_members_flat:
  "constructed c \<Longrightarrow> \<forall>m \<in> set (getObjs c). \<not> is_SBAdd m"
proof (induction rule: constructed.induct)
  case (constructed_Leaf l)
  show ?case by simp
next
  case (constructed_SBAdd slist gsparams c)
  have "\<forall>s \<in> set slist. \<forall>m \<in> set (add [] s). \<not> is_SBAdd m"
    using constructed_SBAdd.IH by (auto simp add: add_Nil_cases)
  then have "\<forall>m \<in> set (concat (map (add []) slist)). \<not> is_SBAdd m"
    by auto
  then show ?case
    using getObjs_ctor [OF constructed_SBAdd.hyps] by (simp add: foldl_add_concat)
qed

text \<open>
  Claim C2. Construction flattens nested composites. For all profiles A, B and C, the
  composite built from [A, composite(B, C)] has the same member list as the composite
  built from [A, B, C]; when A, B and C are not composites themselves this is the
  three-member list [A, B, C]. When A, B and C are constructed profiles, so is the
  result, and no member of a constructed composite is itself a composite.
\<close>

theorem SBAdd_flattens:
  assumes bc: "SBAddImpl_ctor [B, C] gbc = Inr BC"
    and x: "SBAddImpl_ctor [A, BC] gx = Inr X"
    and y: "SBAddImpl_ctor [A, B, C] gy = Inr Y"
  shows "getObjs X = getObjs Y
       \<and> (\<not> is_SBAdd A \<and> \<not> is_SBAdd B \<and> \<not> is_SBAdd C \<longrightarrow> getObjs X = [A, B, C])
       \<and> (constructed A \<and> constructed B \<and> constructed C \<longrightarrow>
            constructed X \<and> (\<forall>m \<in> set (getObjs X). \<not> is_SBAdd m))
       \<and> (\<forall>c. constructed c \<longrightarrow> (\<forall>m \<in> set (getObjs c). \<not> is_SBAdd m))"
proof -
  have mBC: "getObjs BC = add [] B @ add [] C"
    using getObjs_ctor [OF bc] unfolding foldl_add_concat by simp
  have cBC: "is_SBAdd BC" using is_SBAdd_ctor [OF bc] .
  have mX: "getObjs X = add [] A @ add [] B @ add [] C"
    using getObjs_ctor [OF x] mBC cBC unfolding foldl_add_concat by (simp add: add_Nil_cases)
  have mY: "getObjs Y = add [] A @ add [] B @ add [] C"
    using getObjs_ctor [OF y] unfolding foldl_add_concat by simp
  have same: "getObjs X = getObjs Y" using mX mY by simp
  have three: "\<not> is_SBAdd A \<and> \<not> is_SBAdd B \<and> \<not> is_SBAdd C \<longrightarrow> getObjs X = [A, B, C]"
    using mX by (simp add: add_Nil_cases)
  have flat: "constructed A \<and> constructed B \<and> constructed C \<longrightarrow>
      constructed X \<and> (\<forall>m \<in> set (getObjs X). \<not> is_SBAdd m)"
  proof
    assume abc: "constructed A \<and> constructed B \<and> constructed C"
    have "constructed BC"
      using constructed_SBAdd [of "[B, C]" gbc BC] abc bc by simp
    then have "constructed X"
      using constructed_SBAdd [of "[A, BC]" gx X] abc x by simp
    then show "constructed X \<and> (\<forall>m \<in> set (getObjs X). \<not> is_SBAdd m)"
      using constructed_members_flat by blast
  qed
  have every: "\<forall>c. constructed c \<longrightarrow> (\<forall>m \<in> set (getObjs c). \<not> is_SBAdd m)"
    using constructed_members_flat by blast
  show ?thesis using same three flat every by blast
qed

text \<open>
  The three sample profiles: the composite of A and of the composite of B and C is the
  composite with the member list [A, B, C].
\<close>

theorem SBAdd_flattens_witness:
  "getObjs (SBAdd sample_gsparams [sample_A, sample_B, sample_C]
             (initialize [sample_A, sample_B, sample_C]))
     = [sample_A, sample_B, sample_C]
   \<and> SBAddImpl_ctor
        [sample_A, SBAdd sample_gsparams [sample_B, sample_C] (initialize [sample_B, sample_C])]
        None
     = Inr (SBAdd sample_gsparams [sample_A, sample_B, sample_C]
             (initialize [sample_A, sample_B, sample_C]))
   \<and> constructed (SBAdd sample_gsparams [sample_A, sample_B, sample_C]
             (initialize [sample_A, sample_B, sample_C]))"
proof -
  let ?BC = "SBAdd sample_gsparams [sample_B, sample_C] (initialize [sample_B, sample_C])"
  let ?X = "SBAdd sample_gsparams [sample_A, sample_B, sample_C]
              (initialize [sample_A, sample_B, sample_C])"
  have bc: "SBAddImpl_ctor [sample_B, sample_C] None = Inr ?BC"
    by (simp add: SBAddImpl_ctor_def Let_def sample_defs)
  have x: "SBAddImpl_ctor [sample_A, ?BC] None = Inr ?X"
    by (simp add: SBAddImpl_ctor_def Let_def sample_defs)
  have y: "SBAddImpl_ctor [sample_A, sample_B, sample_C] None = Inr ?X"
    by (simp add: SBAddImpl_ctor_def Let_def sample_defs)
  have leaves: "\<not> is_SBAdd sample_A \<and> \<not> is_SBAdd sample_B \<and> \<not> is_SBAdd sample_C"
    by (simp add: sample_defs)
  have con: "constructed sample_A \<and> constructed sample_B \<and> constructed sample_C"
    by (simp add: sample_defs constructed_Leaf)
  show ?thesis
    using SBAdd_flattens [OF bc x y] leaves con x by simp
qed

section \<open>Construction from an empty member list\<close>

text \<open>
  Claim C9 says that the constructor rejects an empty member list with a configuration
  error. The constructor has no such check: given a parameter set and the empty list, it
  returns a composite.
\<close>

theorem SBAdd_empty_list_not_rejected:
  "\<not> isl (SBAddImpl_ctor [] (Some sample_gsparams))"
  by (simp add: SBAddImpl_ctor_def)

text \<open>
  Claim C9, as the code has it. The constructor validates nothing about the member
  list and never fails with a configuration error: given a parameter set it always
  returns a composite, whose member list is the flattened argument list. For the empty
  list this is a composite without members, whose reduced properties are the values
  assigned before the loop of \<^verbatim>\<open>initialize()\<close> (flux 0, both band-limits 0, the
  conjunctions true, the disjunction false). A non-empty member list is a precondition
  that the caller has to ensure.
\<close>

theorem SBAdd_ctor_no_validation:
  "SBAddImpl_ctor [] (Some g) = Inr (SBAdd g [] initialize_start)
   \<and> getFlux (SBAdd g [] initialize_start) = 0
   \<and> maxK (SBAdd g [] initialize_start) = 0
   \<and> stepK (SBAdd g [] initialize_start) = 0
   \<and> isAxisymmetric (SBAdd g [] initialize_start)
   \<and> isAnalyticX (SBAdd g [] initialize_start)
   \<and> isAnalyticK (SBAdd g [] initialize_start)
   \<and> \<not> hasHardEdges (SBAdd g [] initialize_start)
   \<and> SBAddImpl_ctor slist (Some g)
       = Inr (SBAdd g (foldl add [] slist) (initialize (foldl add [] slist)))
   \<and> SBAddImpl_ctor slist gsparams \<noteq> Inl (SBError msg)"
proof -
  have empty: "SBAddImpl_ctor [] (Some g) = Inr (SBAdd g [] initialize_start)"
    by (simp add: SBAddImpl_ctor_def Let_def initialize_def)
  have reduced: "getFlux (SBAdd g [] initialize_start) = 0"
    "maxK (SBAdd g [] initialize_start) = 0" "stepK (SBAdd g [] initialize_start) = 0"
    "isAxisymmetric (SBAdd g [] initialize_start)" "isAnalyticX (SBAdd g [] initialize_start)"
    "isAnalyticK (SBAdd g [] initialize_start)" "\<not> hasHardEdges (SBAdd g [] initialize_start)"
    by (simp_all add: initialize_start_def)
  have any: "SBAddImpl_ctor slist (Some g)
       = Inr (SBAdd g (foldl add [] slist) (initialize (foldl add [] slist)))"
    by (simp add: SBAddImpl_ctor_def Let_def)
  have no_error: "SBAddImpl_ctor slist gsparams \<noteq> Inl (SBError msg)"
    by (simp add: SBAddImpl_ctor_def Let_def split: option.splits list.splits)
  show ?thesis
    using empty reduced any no_error by blast
qed


theorem SBAdd_ctor_no_validation_witness:
  "SBAddImpl_ctor [] (Some sample_gsparams) = Inr (SBAdd sample_gsparams [] initialize_start)
   \<and> getObjs (SBAdd sample_gsparams [] initialize_start) = []"
  using SBAdd_ctor_no_validation [of sample_gsparams "[]" None "[]"] by simp

section \<open>Allocation of photons to the members\<close>

lemma shoot_loop_step:
  assumes "rest \<noteq> []"
    and "BinomialDeviate u n ((getPositiveFlux p + getNegativeFlux p) / remAbs) = (k, u1)"
    and "spec_draw (shoot ls BinomialDeviate) w p k u1 acc = (acc1, u2)"
  shows "shoot_loop ls BinomialDeviate w (p # rest) n remAbs u acc =
          (if n - k \<le> 0 then (acc1, u2)
           else if remAbs - (getPositiveFlux p + getNegativeFlux p) \<le> 0 then (acc1, u2)
           else shoot_loop ls BinomialDeviate w rest (n - k)
                  (remAbs - (getPositiveFlux p + getNegativeFlux p)) u2 acc1)"
proof (cases "0 < k")
  case True
  obtain thisPA u' where sh: "shoot ls BinomialDeviate p k u1 = (thisPA, u')"
    by (cases "shoot ls BinomialDeviate p k u1")
  have "acc1 = PhotonArray_append acc
                 (scaleFlux (w * real_of_int k / (getPositiveFlux p + getNegativeFlux p)) thisPA)"
    and "u2 = u'"
    using assms(3) True sh by (simp_all add: spec_draw_def spec_absoluteFlux_def)
  then show ?thesis
    using assms(1,2) True sh by (simp add: Let_def)
next
  case False
  have "acc1 = acc" and "u2 = u1"
    using assms(3) False by (simp_all add: spec_draw_def)
  then show ?thesis
    using assms(1,2) False by (simp add: Let_def)
qed

lemma shoot_loop_last:
  "shoot_loop ls BinomialDeviate w [p] n remAbs u acc
     = spec_draw (shoot ls BinomialDeviate) w p n u acc"
  by (cases "shoot ls BinomialDeviate p n u")
     (simp add: spec_draw_def spec_absoluteFlux_def Let_def)

lemma spec_allocate_step:
  assumes "rest \<noteq> []"
    and "bd u n (spec_absoluteFlux p / (\<Sum>q\<leftarrow>p # rest. spec_absoluteFlux q)) = (k, u1)"
    and "spec_draw sh w p k u1 acc = (acc1, u2)"
  shows "spec_allocate sh bd w (p # rest) n u acc =
          (if n - k \<le> 0 \<or> (\<Sum>q\<leftarrow>rest. spec_absoluteFlux q) \<le> 0 then (acc1, u2)
           else spec_allocate sh bd w rest (n - k) u2 acc1)"
proof -
  obtain q qs where rest: "rest = q # qs" using assms(1) by (cases rest) auto
  show ?thesis
    unfolding rest spec_allocate.simps Let_def
    using assms(2,3) unfolding rest by (simp only: prod.case)
qed

lemma spec_loop_refines:
  "remAbs = (\<Sum>q\<leftarrow>ps. spec_absoluteFlux q) \<Longrightarrow>
   shoot_loop ls bd w ps n remAbs u acc = spec_allocate (shoot ls bd) bd w ps n u acc"
proof (induction ps arbitrary: n remAbs u acc)
  case Nil
  show ?case by simp
next
  case (Cons p rest)
  show ?case
  proof (cases "rest = []")
    case True
    show ?thesis
      unfolding True by (simp only: shoot_loop_last spec_allocate.simps)
  next
    case False
    let ?a = "getPositiveFlux p + getNegativeFlux p"
    have a: "spec_absoluteFlux p = ?a" by (simp add: spec_absoluteFlux_def)
    have remAbs: "remAbs = (\<Sum>q\<leftarrow>p # rest. spec_absoluteFlux q)"
      using Cons.prems .
    have rem: "remAbs - ?a = (\<Sum>q\<leftarrow>rest. spec_absoluteFlux q)"
      using Cons.prems a by simp
    obtain k u1 where bd: "bd u n (?a / remAbs) = (k, u1)"
      by (cases "bd u n (?a / remAbs)")
    obtain acc1 u2 where dr: "spec_draw (shoot ls bd) w p k u1 acc = (acc1, u2)"
      by (cases "spec_draw (shoot ls bd) w p k u1 acc")
    have bd': "bd u n (spec_absoluteFlux p / (\<Sum>q\<leftarrow>p # rest. spec_absoluteFlux q)) = (k, u1)"
      using bd a remAbs by simp
    have code: "shoot_loop ls bd w (p # rest) n remAbs u acc =
          (if n - k \<le> 0 then (acc1, u2)
           else if remAbs - ?a \<le> 0 then (acc1, u2)
           else shoot_loop ls bd w rest (n - k) (remAbs - ?a) u2 acc1)"
      using False bd dr by (rule shoot_loop_step)
    have spec: "spec_allocate (shoot ls bd) bd w (p # rest) n u acc =
          (if n - k \<le> 0 \<or> (\<Sum>q\<leftarrow>rest. spec_absoluteFlux q) \<le> 0 then (acc1, u2)
           else spec_allocate (shoot ls bd) bd w rest (n - k) u2 acc1)"
      using False bd' dr by (rule spec_allocate_step)
    have IH: "shoot_loop ls bd w rest (n - k) (remAbs - ?a) u2 acc1
                 = spec_allocate (shoot ls bd) bd w rest (n - k) u2 acc1"
      using Cons.IH [OF rem] .
    show ?thesis
      using IH unfolding code spec rem by simp
  qed
qed

lemma composite_absolute_flux:
  "getPositiveFlux (SBAdd g plist r) + getNegativeFlux (SBAdd g plist r)
     = (\<Sum>m\<leftarrow>plist. spec_absoluteFlux m)"
  by (simp add: foldl_add_sum_list spec_absoluteFlux_def sum_list_addf)

text \<open>
  Claim C3. For a photon count \<open>N > 0\<close>, \<^verbatim>\<open>shoot(N, u)\<close> of a composite is the
  allocation rule of the specification: the nominal weight is the total absolute flux
  over \<open>N\<close>; members are served in list order; every member but the last draws its count
  from the binomial deviate with trials the photons remaining and success probability
  its absolute flux over the absolute flux of the members not yet processed; the last
  member receives all remaining photons; the sub-sample of a member that drew
  \<^verbatim>\<open>thisN\<close> photons is rescaled by the nominal weight times \<^verbatim>\<open>thisN\<close> over the member's
  absolute flux; and the iteration stops as soon as no photon or no absolute flux
  remains. The running difference \<^verbatim>\<open>remainingAbsoluteFlux\<close> of the code is the sum over
  the members not yet processed (exactly so in real arithmetic). The flag of the result
  is the subject of claim C4.
\<close>

theorem SBAdd_shoot_allocation:
  assumes "0 < N"
  shows "shoot leaf_shoot BinomialDeviate (SBAdd g plist r) N u =
     (let totalAbsoluteFlux = (\<Sum>m\<leftarrow>plist. spec_absoluteFlux m);
          (merged, u') = spec_allocate (shoot leaf_shoot BinomialDeviate) BinomialDeviate
                           (totalAbsoluteFlux / real_of_int N) plist N u PhotonArray_new
      in (if 1 < length plist then setCorrelated merged else merged, u'))"
proof -
  let ?total = "\<Sum>m\<leftarrow>plist. spec_absoluteFlux m"
  have loop: "shoot_loop leaf_shoot BinomialDeviate (?total / real_of_int N) plist N ?total u
                PhotonArray_new
              = spec_allocate (shoot leaf_shoot BinomialDeviate) BinomialDeviate
                  (?total / real_of_int N) plist N u PhotonArray_new"
    by (rule spec_loop_refines) simp
  show ?thesis
    unfolding shoot.simps composite_absolute_flux Let_def loop by simp
qed

text \<open>
  Four photons from the composite of A and B, the binomial draw giving half of the
  trials: two photons from each member, each of weight 1.
\<close>

theorem SBAdd_shoot_allocation_witness:
  "(0::int) < 4 \<and>
   shoot sample_leaf_shoot sample_binomial_half sample_AB 4 0
     = (\<lparr> photons = [(0, 0, 1), (0, 0, 1), (4, 8, 1), (4, 8, 1)], is_correlated = True \<rparr>, 5)"
proof -
  have pos: "(0::int) < 4" by simp
  have two: "replicate 2 x = [x, x]" for x :: "real \<times> real \<times> real"
    by (simp add: numeral_2_eq_2)
  show ?thesis
    using SBAdd_shoot_allocation [OF pos, of sample_leaf_shoot sample_binomial_half
            sample_gsparams "[sample_A, sample_B]" "initialize [sample_A, sample_B]" 0]
    by (simp add: sample_AB_def sample_defs spec_absoluteFlux_def spec_draw_def
          sample_binomial_half_def sample_leaf_shoot_def PhotonArray_new_def
          PhotonArray_append_def scaleFlux_def setCorrelated_def two Let_def)
qed

section \<open>The correlation flag\<close>

lemma shoot_loop_is_correlated:
  "is_correlated (fst (shoot_loop leaf_shoot BinomialDeviate w ps n a u acc)) = is_correlated acc"
proof (induction ps arbitrary: n a u acc)
  case Nil
  show ?case by simp
next
  case (Cons p rest)
  show ?case
    by (auto simp add: Cons.IH Let_def PhotonArray_append_def split: prod.splits)
qed

text \<open>
  Claim C4 says that the result is marked correlated exactly when more than one member
  contributed photons. In the composite of A and B, a binomial draw that gives both
  photons to A leaves A the only contributor (the loop stops after A, and both photons of
  the result lie at the centroid of A), and the result is marked correlated.
\<close>

theorem SBAdd_shoot_correlated_single_contributor:
  "is_correlated (fst (shoot sample_leaf_shoot sample_binomial_all sample_AB 2 0))
   \<and> contributing_members sample_leaf_shoot sample_binomial_all sample_AB 2 0 = 1
   \<and> photons (fst (shoot sample_leaf_shoot sample_binomial_all sample_AB 2 0))
       = [(0, 0, 2), (0, 0, 2)]
   \<and> is_correlated (fst (shoot sample_leaf_shoot sample_binomial_all sample_AB 2 0))
       \<noteq> (1 < contributing_members sample_leaf_shoot sample_binomial_all sample_AB 2 0)"
proof -
  have two: "replicate 2 x = [x, x]" for x :: "real \<times> real \<times> real"
    by (simp add: numeral_2_eq_2)
  show ?thesis
    by (simp add: sample_AB_def sample_defs contributing_members_def
          sample_binomial_all_def sample_leaf_shoot_def PhotonArray_new_def
          PhotonArray_append_def scaleFlux_def setCorrelated_def two Let_def)
qed

text \<open>
  Claim C4, as the code has it. The result of \<^verbatim>\<open>shoot\<close> on a composite is marked
  correlated exactly when the member list of the composite has more than one member,
  whichever members contributed photons.
\<close>

theorem SBAdd_shoot_correlated_by_member_count:
  "is_correlated (fst (shoot leaf_shoot BinomialDeviate (SBAdd g plist r) N u))
     = (1 < length plist)"
proof -
  obtain res u' where loop:
    "shoot_loop leaf_shoot BinomialDeviate
       ((getPositiveFlux (SBAdd g plist r) + getNegativeFlux (SBAdd g plist r)) / real_of_int N)
       plist N (getPositiveFlux (SBAdd g plist r) + getNegativeFlux (SBAdd g plist r)) u
       PhotonArray_new = (res, u')"
    by (cases "shoot_loop leaf_shoot BinomialDeviate
       ((getPositiveFlux (SBAdd g plist r) + getNegativeFlux (SBAdd g plist r)) / real_of_int N)
       plist N (getPositiveFlux (SBAdd g plist r) + getNegativeFlux (SBAdd g plist r)) u
       PhotonArray_new")
  have "is_correlated (fst (res, u')) = is_correlated PhotonArray_new"
    unfolding loop [symmetric] by (rule shoot_loop_is_correlated)
  then have res: "\<not> is_correlated res" by (simp add: PhotonArray_new_def)
  show ?thesis
    unfolding shoot.simps Let_def loop using res by (simp add: setCorrelated_def)
qed

theorem SBAdd_shoot_correlated_by_member_count_witness:
  "is_correlated (fst (shoot sample_leaf_shoot sample_binomial_all sample_AB 2 0))
   \<and> \<not> is_correlated (fst (shoot sample_leaf_shoot sample_binomial_all
                              (SBAdd sample_gsparams [sample_A] (initialize [sample_A])) 2 0))"
  using SBAdd_shoot_correlated_by_member_count
          [of sample_leaf_shoot sample_binomial_all sample_gsparams "[sample_A, sample_B]"
              "initialize [sample_A, sample_B]" 2 0]
        SBAdd_shoot_correlated_by_member_count
          [of sample_leaf_shoot sample_binomial_all sample_gsparams "[sample_A]"
              "initialize [sample_A]" 2 0]
  by (simp add: sample_AB_def)

section \<open>The Spergel shape record\<close>

lemma SpergelInfo_ctor_Inr:
  assumes "SpergelInfo_ctor E nu gsparams = Inr info"
  shows "info = \<lparr> info_nu = nu, info_gsparams = gsparams,
                  info_gamma_nup1 = tgamma E (nu + 1),
                  info_gamma_nup2 = tgamma E (nu + 1) * (nu + 1),
                  info_xnorm0 = (if nu > 0 then Finite (tgamma E (nu + 1) / (2 * nu) * 2 powr nu)
                                 else INFINITY),
                  info_maxk = 0, info_stepk = 0, info_re = 0 \<rparr>"
    and "minimum_spergel_nu E \<le> nu" and "nu \<le> maximum_spergel_nu E"
  using assms by (auto simp add: SpergelInfo_ctor_def Let_def split: if_splits)

lemma sample_info1_ctor: "SpergelInfo_ctor sample_extern 1 sample_gsparams = Inr sample_info1"
  by (simp add: SpergelInfo_ctor_def sample_extern_def Let_def sample_info1_def)


subsection \<open>The index -1/2\<close>


lemma cusp_enclosed_flux:
  assumes "0 < u"
  shows "SpergelIntegratedFlux cusp_extern (- (1 / 2)) (sqrt pi * (1 / 2)) t u = 1 - exp (- u) - t"
proof -
  have p: "(u / 2) powr (1 / 2) = sqrt (u / 2)"
    using assms by (simp add: powr_half_sqrt)
  have "sqrt (u / 2) * sqrt (pi / (2 * u)) = sqrt ((u / 2) * (pi / (2 * u)))"
    by (rule real_sqrt_mult [symmetric])
  also have "(u / 2) * (pi / (2 * u)) = pi / 4"
    using assms by (simp add: field_simps)
  also have "sqrt (pi / 4) = sqrt pi / 2"
    by (simp add: real_sqrt_divide)
  finally have s: "sqrt (u / 2) * sqrt (pi / (2 * u)) = sqrt pi / 2" .
  have "(u / 2) powr (- (1 / 2) + 1) * cyl_bessel_k cusp_extern (- (1 / 2) + 1) u
          / (sqrt pi * (1 / 2))
        = (sqrt (u / 2) * sqrt (pi / (2 * u))) * exp (- u) / (sqrt pi / 2)"
    using p by (simp add: cusp_extern_def)
  also have "\<dots> = exp (- u)"
    unfolding s by simp
  finally show ?thesis
    by (simp add: SpergelIntegratedFlux_def Let_def)
qed

lemma SpergelIntegratedFlux_origin:
  "SpergelIntegratedFlux E nu gamma_nup2 t 0 = 1 - t"
  by (simp add: SpergelIntegratedFlux_def Let_def)

lemma cusp_flux_radius:
  "calculateFluxRadius cusp_extern (cusp_info g) t = Inr (- ln (1 - t))"
proof -
  have sel: "Solve_root cusp_extern func z1 z2 xtol m b = Inr (- ln (func 0))"
    for func z1 z2 xtol m b
    by (simp add: cusp_extern_def)
  show ?thesis
    by (simp add: calculateFluxRadius_def Let_def sel SpergelIntegratedFlux_origin)
qed

lemma cusp_root:
  assumes "0 < t" "t < 1"
  shows "0 < - ln (1 - t)" and "exp (- (- ln (1 - t))) = 1 - t"
    and "SpergelIntegratedFlux cusp_extern (- (1 / 2)) (sqrt pi * (1 / 2)) t (- ln (1 - t)) = 0"
    and "calculateIntegratedFlux cusp_extern (cusp_info g) (- ln (1 - t)) = t"
proof -
  show pos: "0 < - ln (1 - t)" using assms by simp
  show e: "exp (- (- ln (1 - t))) = 1 - t" using assms by simp
  show "SpergelIntegratedFlux cusp_extern (- (1 / 2)) (sqrt pi * (1 / 2)) t (- ln (1 - t)) = 0"
    unfolding cusp_enclosed_flux [OF pos] e by simp
  show "calculateIntegratedFlux cusp_extern (cusp_info g) (- ln (1 - t)) = t"
    unfolding calculateIntegratedFlux_def
    by (simp only: cusp_info_def SpergelInfo.simps cusp_enclosed_flux [OF pos] e)
qed

subsection \<open>The lower band-limit\<close>

lemma SpergelInfo_stepK_fresh:
  assumes "info_stepk info = 0"
    and "calculateFluxRadius E info (1 - folding_threshold (info_gsparams info)) = Inr R0"
  shows "SpergelInfo_stepK E info =
           Inr (pi / max R0 (stepk_minimum_hlr (info_gsparams info)),
                info\<lparr> info_stepk := pi / max R0 (stepk_minimum_hlr (info_gsparams info)) \<rparr>)"
  using assms by (simp add: SpergelInfo_stepK_def Let_def)

lemma exponential_info_ctor:
  "SpergelInfo_ctor exponential_extern (1 / 2) sample_gsparams = Inr exponential_info"
  by (simp add: SpergelInfo_ctor_def exponential_extern_def Let_def exponential_info_def)

lemma exponential_target:
  "SpergelIntegratedFlux E (1 / 2) g2 target 0 = 1 - target"
  by (simp add: SpergelIntegratedFlux_def Let_def)

lemma exponential_flux_radius:
  "calculateFluxRadius exponential_extern exponential_info (1 / 2) = Inr (16783 / 10000)"
  "calculateFluxRadius exponential_extern exponential_info (995 / 1000) = Inr (74301 / 10000)"
  by (simp_all add: calculateFluxRadius_def exponential_target exponential_info_def
        exponential_extern_def Let_def)

text \<open>
  Claim C6 says that \<^verbatim>\<open>stepK()\<close> is \<open>\<pi> / R\<close> with \<open>R\<close> the radius enclosing
  1 - \<^verbatim>\<open>folding_threshold\<close> of the flux, raised to at least \<^verbatim>\<open>stepk_minimum_hlr\<close> times
  the half-light radius. The code raises \<open>R\<close> to \<^verbatim>\<open>stepk_minimum_hlr\<close> itself, without
  the factor of the half-light radius, although the record works in units of the scale
  radius. For the exponential profile with the default parameters
  (\<^verbatim>\<open>folding_threshold\<close> 0.005, \<^verbatim>\<open>stepk_minimum_hlr\<close> 5) the half-light radius is
  1.6783 and the radius enclosing 0.995 of the flux is 7.4301: the code returns
  \<open>\<pi> / 7.4301\<close>, where the claim has \<open>\<pi> / 8.3915\<close>.
\<close>

theorem SpergelInfo_stepK_floor_not_scaled_by_hlr:
  "SpergelInfo_ctor exponential_extern (1 / 2) sample_gsparams = Inr exponential_info
   \<and> folding_threshold sample_gsparams = 5 / 1000
   \<and> stepk_minimum_hlr sample_gsparams = 5
   \<and> getHLR exponential_extern exponential_info
       = Inr (16783 / 10000, exponential_info\<lparr> info_re := 16783 / 10000 \<rparr>)
   \<and> calculateFluxRadius exponential_extern exponential_info
         (1 - folding_threshold sample_gsparams) = Inr (74301 / 10000)
   \<and> SpergelInfo_stepK exponential_extern exponential_info
       = Inr (pi / (74301 / 10000),
              exponential_info\<lparr> info_stepk := pi / (74301 / 10000) \<rparr>)
   \<and> pi / max (74301 / 10000) (stepk_minimum_hlr sample_gsparams * (16783 / 10000))
       = pi / (83915 / 10000)
   \<and> pi / (74301 / 10000) \<noteq> pi / (83915 / 10000)"
proof -
  have g: "info_gsparams exponential_info = sample_gsparams"
    and s0: "info_stepk exponential_info = 0" and r0: "info_re exponential_info = 0"
    by (simp_all add: exponential_info_def)
  have ft: "folding_threshold sample_gsparams = 5 / 1000"
    and mh: "stepk_minimum_hlr sample_gsparams = 5"
    by (simp_all add: sample_gsparams_def)
  have R: "calculateFluxRadius exponential_extern exponential_info
             (1 - folding_threshold sample_gsparams) = Inr (74301 / 10000)"
    using exponential_flux_radius(2) by (simp add: ft)
  have step: "SpergelInfo_stepK exponential_extern exponential_info
       = Inr (pi / (74301 / 10000),
              exponential_info\<lparr> info_stepk := pi / (74301 / 10000) \<rparr>)"
    using SpergelInfo_stepK_fresh [of exponential_info exponential_extern "74301 / 10000"] s0 R
    by (simp add: g mh)
  have hlr: "getHLR exponential_extern exponential_info
       = Inr (16783 / 10000, exponential_info\<lparr> info_re := 16783 / 10000 \<rparr>)"
    using exponential_flux_radius(1) r0 by (simp add: getHLR_def)
  have floor: "pi / max (74301 / 10000) (stepk_minimum_hlr sample_gsparams * (16783 / 10000))
       = pi / (83915 / 10000)"
    by (simp add: mh)
  have differ: "pi / (74301 / 10000) \<noteq> pi / (83915 / 10000)"
    by simp
  show ?thesis
    using exponential_info_ctor ft mh hlr R step floor differ by blast
qed

subsection \<open>The value at the origin\<close>

text \<open>
  Claim C7 says that \<^verbatim>\<open>xValue\<close> at \<open>r = 0\<close> returns a precomputed constant that is
  finite for every valid index, the indices \<open>\<nu> \<le> 0\<close> included. At \<open>\<nu> = 0\<close>, a valid
  index, the constant is \<^verbatim>\<open>INFINITY\<close>.
\<close>

theorem Spergel_xValue_origin_infinite:
  "\<not> isl (SpergelInfo_ctor sample_extern 0 sample_gsparams)
   \<and> SpergelInfo_xValue sample_extern (projr (SpergelInfo_ctor sample_extern 0 sample_gsparams)) 0
       = INFINITY"
  by (simp add: SpergelInfo_ctor_def sample_extern_def Let_def SpergelInfo_xValue_def)

text \<open>
  Claim C7, as the code has it. For every valid index, \<^verbatim>\<open>xValue\<close> at \<open>r = 0\<close>
  returns the precomputed constant \<^verbatim>\<open>_xnorm0\<close>; for \<open>\<nu> > 0\<close> the constant is the finite
  number \<open>\<Gamma>(\<nu> + 1) / (2 \<nu>) \<cdot> 2\<^sup>\<nu>\<close>, and for \<open>\<nu> \<le> 0\<close> it is
  \<^verbatim>\<open>INFINITY\<close>.
\<close>

theorem Spergel_xValue_origin:
  assumes "SpergelInfo_ctor E nu gsparams = Inr info"
  shows "SpergelInfo_xValue E info 0 = info_xnorm0 info
       \<and> (0 < nu \<longrightarrow> info_xnorm0 info = Finite (tgamma E (nu + 1) / (2 * nu) * 2 powr nu))
       \<and> (nu \<le> 0 \<longrightarrow> info_xnorm0 info = INFINITY)"
  using SpergelInfo_ctor_Inr(1) [OF assms] by (simp add: SpergelInfo_xValue_def)

theorem Spergel_xValue_origin_witness:
  "SpergelInfo_ctor sample_extern 1 sample_gsparams
     = Inr \<lparr> info_nu = 1, info_gsparams = sample_gsparams, info_gamma_nup1 = 1,
             info_gamma_nup2 = 2, info_xnorm0 = Finite 1,
             info_maxk = 0, info_stepk = 0, info_re = 0 \<rparr>
   \<and> SpergelInfo_xValue sample_extern
         \<lparr> info_nu = 1, info_gsparams = sample_gsparams, info_gamma_nup1 = 1,
           info_gamma_nup2 = 2, info_xnorm0 = Finite 1,
           info_maxk = 0, info_stepk = 0, info_re = 0 \<rparr> 0 = Finite 1"
proof -
  have c: "SpergelInfo_ctor sample_extern 1 sample_gsparams
     = Inr \<lparr> info_nu = 1, info_gsparams = sample_gsparams, info_gamma_nup1 = 1,
             info_gamma_nup2 = 2, info_xnorm0 = Finite 1,
             info_maxk = 0, info_stepk = 0, info_re = 0 \<rparr>"
    by (simp add: SpergelInfo_ctor_def sample_extern_def Let_def)
  show ?thesis
    using Spergel_xValue_origin [OF c] c by simp
qed

section \<open>The two radii of a Spergel profile\<close>

lemma calculateFluxRadius_memo:
  "calculateFluxRadius E (info\<lparr> info_re := re \<rparr>) f = calculateFluxRadius E info f"
  by (simp add: calculateFluxRadius_def)

lemma getHLR_fresh:
  assumes "info_re info = 0" and "getHLR E info = Inr (hlr, info1)"
  shows "calculateFluxRadius E info (5 / 10) = Inr hlr" and "info1 = info\<lparr> info_re := hlr \<rparr>"
  using assms by (auto simp add: getHLR_def split: sum.splits)

lemma getHLR_again:
  assumes "calculateFluxRadius E info (5 / 10) = Inr hlr"
  shows "\<exists>info2. getHLR E (info\<lparr> info_re := hlr \<rparr>) = Inr (hlr, info2)"
  using assms by (simp add: getHLR_def calculateFluxRadius_memo)

lemma SBSpergelImpl_ctor_Inr:
  assumes "SBSpergelImpl_ctor E nu size0 rType flux gsparams = Inr impl"
  obtains info0 hlr where
    "SpergelInfo_ctor E nu gsparams = Inr info0"
    "calculateFluxRadius E info0 (5 / 10) = Inr hlr"
    "impl_info impl = info0\<lparr> info_re := hlr \<rparr>"
    "rType = HALF_LIGHT_RADIUS \<Longrightarrow> impl_re impl = size0 \<and> impl_r0 impl = size0 / hlr"
    "rType = SCALE_RADIUS \<Longrightarrow> impl_r0 impl = size0 \<and> impl_re impl = size0 * hlr"
proof -
  obtain info0 where i0: "SpergelInfo_ctor E nu gsparams = Inr info0"
    using assms by (auto simp add: SBSpergelImpl_ctor_def split: sum.splits)
  obtain hlr info1 where h: "getHLR E info0 = Inr (hlr, info1)"
    using assms i0 by (auto simp add: SBSpergelImpl_ctor_def split: sum.splits)
  have re0: "info_re info0 = 0"
    using SpergelInfo_ctor_Inr(1) [OF i0] by simp
  note fresh = getHLR_fresh [OF re0 h]
  have "impl_info impl = info1"
    and "rType = HALF_LIGHT_RADIUS \<Longrightarrow> impl_re impl = size0 \<and> impl_r0 impl = size0 / hlr"
    and "rType = SCALE_RADIUS \<Longrightarrow> impl_r0 impl = size0 \<and> impl_re impl = size0 * hlr"
    using assms i0 h by (auto simp add: SBSpergelImpl_ctor_def Let_def split: RadiusType.splits)
  then show ?thesis using that i0 fresh by simp
qed

text \<open>
  Claim C10. For every successfully constructed Spergel profile, whichever radius type
  was supplied, \<^verbatim>\<open>getHalfLightRadius()\<close> is \<^verbatim>\<open>getScaleRadius()\<close> times the half-light
  radius of the shared shape record in units of the scale radius, provided that this
  half-light radius is not zero: a size \<open>s\<close> supplied as half-light radius gives the scale
  radius \<open>s / HLR\<close>, and a size supplied as scale radius gives the half-light radius
  \<open>s \<cdot> HLR\<close> (in real arithmetic).
\<close>

theorem Spergel_radius_invariant:
  assumes ctor: "SBSpergelImpl_ctor E nu size0 rType flux gsparams = Inr impl"
    and hlr: "getHLR E (impl_info impl) = Inr (hlr, info')"
    and nz: "hlr \<noteq> 0"
  shows "getHalfLightRadius impl = getScaleRadius impl * hlr
       \<and> (rType = HALF_LIGHT_RADIUS \<longrightarrow>
            getHalfLightRadius impl = size0 \<and> getScaleRadius impl = size0 / hlr)
       \<and> (rType = SCALE_RADIUS \<longrightarrow>
            getScaleRadius impl = size0 \<and> getHalfLightRadius impl = size0 * hlr)"
proof -
  obtain info0 h0 where
    cfr: "calculateFluxRadius E info0 (5 / 10) = Inr h0" and
    info: "impl_info impl = info0\<lparr> info_re := h0 \<rparr>" and
    hl: "rType = HALF_LIGHT_RADIUS \<Longrightarrow> impl_re impl = size0 \<and> impl_r0 impl = size0 / h0" and
    sc: "rType = SCALE_RADIUS \<Longrightarrow> impl_r0 impl = size0 \<and> impl_re impl = size0 * h0"
    using SBSpergelImpl_ctor_Inr [OF ctor] by metis
  obtain info2 where "getHLR E (impl_info impl) = Inr (h0, info2)"
    using getHLR_again [OF cfr] info by auto
  then have same: "h0 = hlr" using hlr by simp
  show ?thesis
  proof (cases rType)
    case HALF_LIGHT_RADIUS
    then show ?thesis
      using hl same nz by (simp add: getHalfLightRadius_def getScaleRadius_def)
  next
    case SCALE_RADIUS
    then show ?thesis
      using sc same by (simp add: getHalfLightRadius_def getScaleRadius_def)
  qed
qed

lemma sample_impl:
  "SBSpergelImpl_ctor sample_extern 1 3 HALF_LIGHT_RADIUS 1 sample_gsparams =
     Inr \<lparr> impl_gsparams = sample_gsparams, impl_nu = 1, impl_flux = 1,
           impl_r0 = 3 / 2, impl_re = 3,
           impl_xnorm = 1 / (pi * 9),
           impl_shootnorm = 1 / (4 * pi), impl_r0_sq = 9 / 4,
           impl_inv_r0 = 2 / 3, impl_info = sample_info1\<lparr> info_re := 2 \<rparr> \<rparr>"
proof -
  have h: "getHLR sample_extern sample_info1 = Inr (2, sample_info1\<lparr> info_re := 2 \<rparr>)"
    by (simp add: getHLR_def calculateFluxRadius_def sample_info1_def sample_extern_def)
  have x: "getXNorm (sample_info1\<lparr> info_re := 2 \<rparr>) = 1 / (4 * pi)"
    by (simp add: getXNorm_def powr_minus sample_info1_def)
  show ?thesis
    by (simp add: SBSpergelImpl_ctor_def sample_info1_ctor h x Let_def)
qed

text \<open>
  In the sample environment the half-light radius is 2: the size 3 supplied as
  half-light radius gives the scale radius 3/2.
\<close>

theorem Spergel_radius_invariant_witness:
  "getHalfLightRadius
     \<lparr> impl_gsparams = sample_gsparams, impl_nu = 1, impl_flux = 1,
       impl_r0 = 3 / 2, impl_re = 3,
       impl_xnorm = 1 / (pi * 9),
       impl_shootnorm = 1 / (4 * pi), impl_r0_sq = 9 / 4,
       impl_inv_r0 = 2 / 3, impl_info = sample_info1\<lparr> info_re := 2 \<rparr> \<rparr> = 3
   \<and> getScaleRadius
     \<lparr> impl_gsparams = sample_gsparams, impl_nu = 1, impl_flux = 1,
       impl_r0 = 3 / 2, impl_re = 3,
       impl_xnorm = 1 / (pi * 9),
       impl_shootnorm = 1 / (4 * pi), impl_r0_sq = 9 / 4,
       impl_inv_r0 = 2 / 3, impl_info = sample_info1\<lparr> info_re := 2 \<rparr> \<rparr> = 3 / 2"
proof -
  have h: "getHLR sample_extern (sample_info1\<lparr> info_re := 2 \<rparr>)
             = Inr (2, sample_info1\<lparr> info_re := 2 \<rparr>)"
    by (simp add: getHLR_def)
  have nz: "(2::real) \<noteq> 0" by simp
  show ?thesis
    using Spergel_radius_invariant [OF sample_impl _ nz, of "sample_info1\<lparr> info_re := 2 \<rparr>"] h
    by simp
qed

section \<open>The round trip of flux radius and enclosed flux\<close>







section \<open>The linear core of the radial function\<close>

lemma linear_core_flux:
  fixes rmin knur s :: real
  assumes "0 < rmin"
  defines "b \<equiv> 3 / rmin * (knur - s / (pi * rmin * rmin))"
  defines "a \<equiv> knur - rmin * b"
  shows "pi * a * rmin\<^sup>2 + 2 * pi / 3 * b * rmin ^ 3 = s" and "a + b * rmin = knur"
proof -
  have r: "rmin \<noteq> 0" using assms(1) by simp
  have b3: "b * rmin ^ 3 = 3 * knur * rmin\<^sup>2 - 3 * s / pi"
    using r by (simp add: b_def power2_eq_square power3_eq_cube field_simps)
  have "pi * a * rmin\<^sup>2 + 2 * pi / 3 * b * rmin ^ 3
          = pi * knur * rmin\<^sup>2 - pi / 3 * (b * rmin ^ 3)"
    by (simp add: a_def power2_eq_square power3_eq_cube algebra_simps)
  also have "\<dots> = s"
    unfolding b3 by (simp add: algebra_simps)
  finally show "pi * a * rmin\<^sup>2 + 2 * pi / 3 * b * rmin ^ 3 = s" .
  show "a + b * rmin = knur" by (simp add: a_def)
qed

lemma linear_core_unique:
  fixes rmin knur s a b :: real
  assumes "0 < rmin"
    and "pi * a * rmin\<^sup>2 + 2 * pi / 3 * b * rmin ^ 3 = s"
    and "a + b * rmin = knur"
  shows "b = 3 / rmin * (knur - s / (pi * rmin * rmin))"
    and "a = knur - rmin * (3 / rmin * (knur - s / (pi * rmin * rmin)))"
proof -
  have r: "rmin \<noteq> 0" using assms(1) by simp
  have a: "a = knur - b * rmin" using assms(3) by simp
  have "s = pi * knur * rmin\<^sup>2 - pi / 3 * (b * rmin ^ 3)"
    unfolding assms(2) [symmetric] a
    by (simp add: power2_eq_square power3_eq_cube algebra_simps)
  then have "b * rmin ^ 3 = 3 * knur * rmin\<^sup>2 - 3 * s / pi"
    by (simp add: field_simps)
  moreover have "(3 / rmin * (knur - s / (pi * rmin * rmin))) * rmin ^ 3
                   = 3 * knur * rmin\<^sup>2 - 3 * s / pi"
    using r by (simp add: power2_eq_square power3_eq_cube field_simps)
  ultimately have "b * rmin ^ 3 = (3 / rmin * (knur - s / (pi * rmin * rmin))) * rmin ^ 3"
    by simp
  moreover have "rmin ^ 3 \<noteq> 0" using r by simp
  ultimately show b: "b = 3 / rmin * (knur - s / (pi * rmin * rmin))"
    by (metis mult_right_cancel)
  show "a = knur - rmin * (3 / rmin * (knur - s / (pi * rmin * rmin)))"
    using a b by (simp add: mult.commute)
qed

lemma radial_flux_antiderivative:
  fixes a b r :: real
  shows "((\<lambda>r. pi * a * r\<^sup>2 + 2 * pi / 3 * b * r ^ 3) has_real_derivative
            2 * pi * r * (a + b * r)) (at r)"
  by (auto intro!: derivative_eq_intros simp add: power2_eq_square algebra_simps)

text \<open>
  For \<open>\<nu> \<le> 0\<close>, with \<open>R_min\<close> the (positive) radius that the solver returns for the
  flux fraction \<^verbatim>\<open>shoot_accuracy\<close>, the radial function of photon shooting is
  \<open>a + b r\<close> on \<open>[0, R_min]\<close>. The coefficients that the code computes satisfy the two
  equations of its comment: the antiderivative \<open>\<pi> a r\<^sup>2 + (2 \<pi> / 3) b r\<^sup>3\<close> of
  \<open>2 \<pi> r (a + b r)\<close> increases by \<^verbatim>\<open>shoot_accuracy\<close> from 0 to \<open>R_min\<close>, and
  \<open>a + b R_min\<close> is \<open>K\<^sub>\<nu>(R_min) R_min\<^sup>\<nu>\<close>. They have the closed forms of the code and
  are the only solution of the two equations.
\<close>


lemma Spergel_shoot_linear_core:
  assumes nu: "info_nu info \<le> 0"
    and rmax: "calculateFluxRadius E info (1 - shoot_accuracy (info_gsparams info)) = Inr shoot_rmax"
    and rmin: "calculateFluxRadius E info (shoot_accuracy (info_gsparams info)) = Inr shoot_rmin"
    and pos: "0 < shoot_rmin"
  shows "\<exists>a b.
           SpergelInfo_shoot_sampler E info
             = Inr (SpergelNuNegativeRadialFunction (info_nu info) shoot_rmin a b,
                    [0, shoot_rmin, shoot_rmax])
         \<and> (\<forall>r. r \<le> shoot_rmin \<longrightarrow>
               FluxDensity_call E (SpergelNuNegativeRadialFunction (info_nu info) shoot_rmin a b) r
                 = Finite (a + b * r))
         \<and> (\<forall>r. ((\<lambda>r. pi * a * r\<^sup>2 + 2 * pi / 3 * b * r ^ 3) has_real_derivative
                     2 * pi * r * (a + b * r)) (at r))
         \<and> (pi * a * shoot_rmin\<^sup>2 + 2 * pi / 3 * b * shoot_rmin ^ 3)
             - (pi * a * 0\<^sup>2 + 2 * pi / 3 * b * 0 ^ 3)
             = shoot_accuracy (info_gsparams info)
         \<and> a + b * shoot_rmin
             = cyl_bessel_k E (info_nu info) shoot_rmin * shoot_rmin powr info_nu info
         \<and> b = 3 / shoot_rmin
                 * (cyl_bessel_k E (info_nu info) shoot_rmin * shoot_rmin powr info_nu info
                    - shoot_accuracy (info_gsparams info) / (pi * shoot_rmin\<^sup>2))
         \<and> a = cyl_bessel_k E (info_nu info) shoot_rmin * shoot_rmin powr info_nu info
                 - b * shoot_rmin
         \<and> (\<forall>a' b'.
               pi * a' * shoot_rmin\<^sup>2 + 2 * pi / 3 * b' * shoot_rmin ^ 3
                 = shoot_accuracy (info_gsparams info)
               \<and> a' + b' * shoot_rmin
                   = cyl_bessel_k E (info_nu info) shoot_rmin * shoot_rmin powr info_nu info
               \<longrightarrow> a' = a \<and> b' = b)"
proof -
  define knur where "knur = cyl_bessel_k E (info_nu info) shoot_rmin * shoot_rmin powr info_nu info"
  define s where "s = shoot_accuracy (info_gsparams info)"
  define b where "b = 3 / shoot_rmin * (knur - s / (pi * shoot_rmin * shoot_rmin))"
  define a where "a = knur - shoot_rmin * b"
  have built: "SpergelInfo_shoot_sampler E info
             = Inr (SpergelNuNegativeRadialFunction (info_nu info) shoot_rmin a b,
                    [0, shoot_rmin, shoot_rmax])"
    using nu rmax rmin
    by (simp add: SpergelInfo_shoot_sampler_def Let_def a_def b_def knur_def s_def)
  have call: "\<forall>r. r \<le> shoot_rmin \<longrightarrow>
               FluxDensity_call E (SpergelNuNegativeRadialFunction (info_nu info) shoot_rmin a b) r
                 = Finite (a + b * r)"
    by simp
  have flux: "pi * a * shoot_rmin\<^sup>2 + 2 * pi / 3 * b * shoot_rmin ^ 3 = s"
    and val: "a + b * shoot_rmin = knur"
    unfolding a_def b_def by (rule linear_core_flux [OF pos])+
  have bform: "b = 3 / shoot_rmin * (knur - s / (pi * shoot_rmin\<^sup>2))"
    by (simp add: b_def power2_eq_square mult.assoc)
  have aform: "a = knur - b * shoot_rmin"
    by (simp add: a_def mult.commute)
  have uniq: "\<forall>a' b'. pi * a' * shoot_rmin\<^sup>2 + 2 * pi / 3 * b' * shoot_rmin ^ 3 = s
                 \<and> a' + b' * shoot_rmin = knur \<longrightarrow> a' = a \<and> b' = b"
    using linear_core_unique [OF pos] unfolding a_def b_def by blast
  have flux0: "(pi * a * shoot_rmin\<^sup>2 + 2 * pi / 3 * b * shoot_rmin ^ 3)
                 - (pi * a * 0\<^sup>2 + 2 * pi / 3 * b * 0 ^ 3) = s"
    using flux by simp
  have deriv: "\<forall>r. ((\<lambda>r. pi * a * r\<^sup>2 + 2 * pi / 3 * b * r ^ 3) has_real_derivative
                     2 * pi * r * (a + b * r)) (at r)"
    using radial_flux_antiderivative by blast
  show ?thesis
    unfolding knur_def [symmetric] s_def [symmetric]
    using built call deriv flux0 val bform aform uniq
    by (intro exI [of _ a] exI [of _ b] conjI) assumption+
qed

lemma radial_flux_unique:
  assumes "0 < R" and v: "radial_flux f R v" and w: "radial_flux f R w"
  shows "v = w"
proof -
  obtain G where G: "continuous_on {0..R} G"
      "\<And>r. 0 < r \<Longrightarrow> r < R \<Longrightarrow> (G has_real_derivative 2 * pi * r * f r) (at r)"
      "G R - G 0 = v"
    using v unfolding radial_flux_def by blast
  obtain H where H: "continuous_on {0..R} H"
      "\<And>r. 0 < r \<Longrightarrow> r < R \<Longrightarrow> (H has_real_derivative 2 * pi * r * f r) (at r)"
      "H R - H 0 = w"
    using w unfolding radial_flux_def by blast
  have c: "continuous_on {0..R} (\<lambda>r. G r - H r)"
    using G(1) H(1) by (intro continuous_intros)
  have d: "((\<lambda>r. G r - H r) has_real_derivative 0) (at r)" if "0 < r" "r < R" for r
    using DERIV_diff [OF G(2) [OF that] H(2) [OF that]] by simp
  have "G R - H R = G 0 - H 0"
    using DERIV_isconst_end [OF assms(1) c d] by simp
  then show ?thesis using G(3) H(3) by simp
qed

lemma radial_flux_linear:
  "radial_flux (\<lambda>r. a + b * r) R (pi * a * R\<^sup>2 + 2 * pi / 3 * b * R ^ 3)"
proof -
  let ?G = "\<lambda>r. pi * a * r\<^sup>2 + 2 * pi / 3 * b * r ^ 3"
  have c: "continuous_on {0..R} ?G"
    by (intro continuous_intros)
  have d: "\<forall>r. 0 < r \<and> r < R \<longrightarrow> (?G has_real_derivative 2 * pi * r * (a + b * r)) (at r)"
    using radial_flux_antiderivative by blast
  have e: "?G R - ?G 0 = pi * a * R\<^sup>2 + 2 * pi / 3 * b * R ^ 3"
    by simp
  show ?thesis
    unfolding radial_flux_def using c d e by blast
qed

lemma cusp_true_function:
  assumes "0 < r"
  shows "2 * pi * r * (cyl_bessel_k cusp_extern (- (1 / 2)) r * r powr (- (1 / 2)))
           = 2 * pi * sqrt (pi / 2) * exp (- r)"
proof -
  have r: "sqrt r * sqrt r = r" using assms by simp
  have p: "r powr (- (1 / 2)) = 1 / sqrt r"
    using assms by (simp add: powr_minus powr_half_sqrt inverse_eq_divide)
  have k: "sqrt (pi / (2 * r)) = sqrt (pi / 2) / sqrt r"
  proof -
    have "pi / (2 * r) = (pi / 2) / r" by simp
    then show ?thesis by (simp only: real_sqrt_divide)
  qed
  have "r * (sqrt (pi / 2) / sqrt r * exp (- r) * (1 / sqrt r))
          = sqrt (pi / 2) * exp (- r) * (r / (sqrt r * sqrt r))"
    by simp
  also have "\<dots> = sqrt (pi / 2) * exp (- r)"
    using assms r by simp
  finally have "r * (sqrt (pi / (2 * r)) * exp (- r) * r powr (- (1 / 2)))
                  = sqrt (pi / 2) * exp (- r)"
    unfolding k p .
  then show ?thesis
    by (simp add: cusp_extern_def mult.assoc)
qed

lemma cusp_true_flux:
  assumes "0 < R"
  shows "radial_flux (\<lambda>r. cyl_bessel_k cusp_extern (- (1 / 2)) r * r powr (- (1 / 2))) R
           (2 * pi * sqrt (pi / 2) * (1 - exp (- R)))"
proof -
  let ?G = "\<lambda>r. - (2 * pi * sqrt (pi / 2) * exp (- r))"
  have c: "continuous_on {0..R} ?G"
    by (intro continuous_intros)
  have d: "(?G has_real_derivative
              2 * pi * r * (cyl_bessel_k cusp_extern (- (1 / 2)) r * r powr (- (1 / 2)))) (at r)"
    if "0 < r" for r
    unfolding cusp_true_function [OF that]
    by (auto intro!: derivative_eq_intros)
  have e: "?G R - ?G 0 = 2 * pi * sqrt (pi / 2) * (1 - exp (- R))"
    by (simp add: algebra_simps)
  show ?thesis
    unfolding radial_flux_def using c d e by blast
qed

lemma cusp_factor: "1 < 2 * pi * sqrt (pi / 2)"
proof -
  have "1 \<le> sqrt (pi / 2)"
    using pi_ge_two by (simp add: real_sqrt_ge_one)
  moreover have "1 < 2 * pi" using pi_ge_two by simp
  ultimately have "1 * 1 < 2 * pi * sqrt (pi / 2)"
    by (intro mult_less_le_imp_less) simp_all
  then show ?thesis by simp
qed

text \<open>
  Claim C8 says that the linear function \<open>a + b r\<close> which replaces the true function on
  \<open>[0, R_min]\<close> both integrates to the true enclosed flux over that region and takes the
  true function's value \<open>K\<^sub>\<nu>(R_min) R_min\<^sup>\<nu>\<close> at \<open>R_min\<close>, as the comment in the code does
  ("a linear function that contains the same flux and has the right value"). The code
  mixes two normalisations: \<open>R_min\<close> encloses \<^verbatim>\<open>shoot_accuracy\<close> of the normalised
  flux, whose total is 1, while the value matched at \<open>R_min\<close>, and the function used
  beyond it, is the unnormalised \<open>K\<^sub>\<nu>(r) r\<^sup>\<nu>\<close>. At \<open>\<nu> = -1/2\<close>, for every
  \<^verbatim>\<open>shoot_accuracy\<close> in (0, 1): the radius \<open>R_min = - ln (1 - shoot_accuracy)\<close>
  encloses exactly \<^verbatim>\<open>shoot_accuracy\<close> of the normalised flux; the linear function of
  the code has the flux \<^verbatim>\<open>shoot_accuracy\<close> inside \<open>R_min\<close> and the value of the true
  function at \<open>R_min\<close>; but the true function has the flux
  \<open>2 \<pi> \<surd>(\<pi> / 2) \<cdot> shoot_accuracy\<close> inside \<open>R_min\<close>, and not \<^verbatim>\<open>shoot_accuracy\<close>.
\<close>

theorem Spergel_shoot_core_flux_mismatch:
  assumes s0: "0 < shoot_accuracy g" and s1: "shoot_accuracy g < 1"
  shows "calculateFluxRadius cusp_extern (cusp_info g) (shoot_accuracy g)
           = Inr (- ln (1 - shoot_accuracy g))
       \<and> 0 < - ln (1 - shoot_accuracy g)
       \<and> calculateIntegratedFlux cusp_extern (cusp_info g) (- ln (1 - shoot_accuracy g))
           = shoot_accuracy g
       \<and> (\<exists>a b shoot_rmax.
             SpergelInfo_shoot_sampler cusp_extern (cusp_info g)
               = Inr (SpergelNuNegativeRadialFunction (- (1 / 2))
                        (- ln (1 - shoot_accuracy g)) a b,
                      [0, - ln (1 - shoot_accuracy g), shoot_rmax])
             \<and> a + b * (- ln (1 - shoot_accuracy g))
                 = cyl_bessel_k cusp_extern (- (1 / 2)) (- ln (1 - shoot_accuracy g))
                     * (- ln (1 - shoot_accuracy g)) powr (- (1 / 2))
             \<and> radial_flux (\<lambda>r. a + b * r) (- ln (1 - shoot_accuracy g)) (shoot_accuracy g))
       \<and> radial_flux (\<lambda>r. cyl_bessel_k cusp_extern (- (1 / 2)) r * r powr (- (1 / 2)))
             (- ln (1 - shoot_accuracy g)) (2 * pi * sqrt (pi / 2) * shoot_accuracy g)
       \<and> \<not> radial_flux (\<lambda>r. cyl_bessel_k cusp_extern (- (1 / 2)) r * r powr (- (1 / 2)))
             (- ln (1 - shoot_accuracy g)) (shoot_accuracy g)"
proof -
  define s where "s = shoot_accuracy g"
  define R where "R = - ln (1 - s)"
  have g: "info_gsparams (cusp_info g) = g" and n: "info_nu (cusp_info g) = - (1 / 2)"
    by (simp_all add: cusp_info_def)
  have pos: "0 < R" and ex: "exp (- R) = 1 - s"
    and enc: "calculateIntegratedFlux cusp_extern (cusp_info g) R = s"
    unfolding R_def
    using cusp_root(1) [of s] cusp_root(2) [of s] cusp_root(4) [of s g] s0 s1
    by (simp_all add: s_def)
  have rmin: "calculateFluxRadius cusp_extern (cusp_info g) s = Inr R"
    unfolding R_def by (rule cusp_flux_radius)
  have nu: "info_nu (cusp_info g) \<le> 0" using n by simp
  have rmax: "calculateFluxRadius cusp_extern (cusp_info g)
                (1 - shoot_accuracy (info_gsparams (cusp_info g))) = Inr (- ln (1 - (1 - s)))"
    unfolding g s_def by (rule cusp_flux_radius)
  have rmin': "calculateFluxRadius cusp_extern (cusp_info g)
                 (shoot_accuracy (info_gsparams (cusp_info g))) = Inr R"
    using rmin by (simp add: g s_def)
  obtain a b where
    built: "SpergelInfo_shoot_sampler cusp_extern (cusp_info g)
              = Inr (SpergelNuNegativeRadialFunction (info_nu (cusp_info g)) R a b,
                     [0, R, - ln (1 - (1 - s))])"
    and flux: "(pi * a * R\<^sup>2 + 2 * pi / 3 * b * R ^ 3)
                 - (pi * a * 0\<^sup>2 + 2 * pi / 3 * b * 0 ^ 3)
               = shoot_accuracy (info_gsparams (cusp_info g))"
    and val: "a + b * R = cyl_bessel_k cusp_extern (info_nu (cusp_info g)) R
                            * R powr info_nu (cusp_info g)"
    using Spergel_shoot_linear_core [OF nu rmax rmin' pos] by blast
  have lin: "radial_flux (\<lambda>r. a + b * r) R s"
    using radial_flux_linear [of a b R] flux by (simp add: g s_def)
  have tflux: "radial_flux (\<lambda>r. cyl_bessel_k cusp_extern (- (1 / 2)) r * r powr (- (1 / 2))) R
                (2 * pi * sqrt (pi / 2) * s)"
    using cusp_true_flux [OF pos] ex by simp
  have "2 * pi * sqrt (pi / 2) * s \<noteq> s"
    using cusp_factor s0 by (simp add: s_def)
  then have nflux: "\<not> radial_flux (\<lambda>r. cyl_bessel_k cusp_extern (- (1 / 2)) r * r powr (- (1 / 2))) R s"
    using radial_flux_unique [OF pos tflux] by blast
  have core: "\<exists>a b shoot_rmax.
             SpergelInfo_shoot_sampler cusp_extern (cusp_info g)
               = Inr (SpergelNuNegativeRadialFunction (- (1 / 2)) R a b, [0, R, shoot_rmax])
             \<and> a + b * R = cyl_bessel_k cusp_extern (- (1 / 2)) R * R powr (- (1 / 2))
             \<and> radial_flux (\<lambda>r. a + b * r) R s"
    using built val lin unfolding n by blast
  show ?thesis
    unfolding s_def [symmetric] R_def [symmetric]
    using rmin pos enc core tflux nflux by blast
qed

text \<open>
  The default \<^verbatim>\<open>shoot_accuracy\<close>, 1/100000.
\<close>

theorem Spergel_shoot_core_flux_mismatch_witness:
  "0 < shoot_accuracy sample_gsparams \<and> shoot_accuracy sample_gsparams < 1
   \<and> shoot_accuracy sample_gsparams = 1 / 100000
   \<and> calculateIntegratedFlux cusp_extern (cusp_info sample_gsparams)
         (- ln (1 - shoot_accuracy sample_gsparams)) = shoot_accuracy sample_gsparams
   \<and> radial_flux (\<lambda>r. cyl_bessel_k cusp_extern (- (1 / 2)) r * r powr (- (1 / 2)))
         (- ln (1 - shoot_accuracy sample_gsparams))
         (2 * pi * sqrt (pi / 2) * shoot_accuracy sample_gsparams)
   \<and> \<not> radial_flux (\<lambda>r. cyl_bessel_k cusp_extern (- (1 / 2)) r * r powr (- (1 / 2)))
         (- ln (1 - shoot_accuracy sample_gsparams)) (shoot_accuracy sample_gsparams)"
proof -
  have acc: "shoot_accuracy sample_gsparams = 1 / 100000"
    by (simp add: sample_gsparams_def)
  have s0: "0 < shoot_accuracy sample_gsparams" and s1: "shoot_accuracy sample_gsparams < 1"
    by (simp_all add: acc)
  show ?thesis
    using Spergel_shoot_core_flux_mismatch [OF s0 s1] s0 s1 acc by blast
qed

end
